theory Spec2Isabelle
  imports Main
begin

section \<open>The JavaScript values the helper handles\<close>

text \<open>
  Source: \<^verbatim>\<open>src/custom-resource-helper.ts\<close>.

  A JavaScript string is a sequence of UTF-16 code units and \<^verbatim>\<open>.length\<close> counts them.
  A \<^typ>\<open>char\<close> stands for the code unit with the same number, so the strings of this
  theory are the JavaScript strings whose code units lie in 0..255; on them \<^verbatim>\<open>.length\<close>
  is \<^const>\<open>length\<close>.

  Time is virtual: a natural number of milliseconds since the entry point was invoked.
\<close>

type_synonym time = nat

text \<open>
  What a \<^verbatim>\<open>throw\<close> or a rejection carries. Rejections are untyped in TypeScript:
  \<^verbatim>\<open>reject()\<close> and \<^verbatim>\<open>throw undefined\<close> carry no object at all (\<open>Nullish\<close>); every
  other value is seen by the helper only through its \<^verbatim>\<open>message\<close> property, which is
  a string or absent.
\<close>

datatype thrown = Nullish | ErrorObj (message: "string option")

datatype 'a settled = Fulfilled 'a | Rejected thrown

text \<open>
  An awaited operation of the environment, by the time it takes: it settles after so many
  milliseconds, or never. A promise is the same with the absolute time of settlement.
\<close>

datatype 'a eventual = After nat "'a settled" | Never

datatype 'a promise = Settles time "'a settled" | Pending

fun map_settled :: "('a \<Rightarrow> 'b) \<Rightarrow> 'a settled \<Rightarrow> 'b settled" where
  "map_settled f (Fulfilled x) = Fulfilled (f x)"
| "map_settled f (Rejected e) = Rejected e"

fun map_eventual :: "('a \<Rightarrow> 'b) \<Rightarrow> 'a eventual \<Rightarrow> 'b eventual" where
  "map_eventual f (After d r) = After d (map_settled f r)"
| "map_eventual f Never = Never"

text \<open>
  \<^verbatim>\<open>a || b\<close> on an optional string: \<^verbatim>\<open>undefined\<close> and the empty string are falsy.
\<close>

fun js_or :: "string option \<Rightarrow> string \<Rightarrow> string" where
  "js_or None d = d"
| "js_or (Some s) d = (if s = [] then d else s)"

subsection \<open>JSON.stringify\<close>

text \<open>
  The values handed to \<^verbatim>\<open>JSON.stringify\<close>: strings, booleans, \<^verbatim>\<open>null\<close>, arrays, plain objects
  (an object is the list of its own properties in enumeration order), and the values on
  which \<^verbatim>\<open>JSON.stringify\<close> throws, each with what is thrown when the serialisation reaches
  it: a BigInt and a reference that closes a cycle (a TypeError), an object whose
  \<^verbatim>\<open>toJSON\<close> throws. Numbers, \<^verbatim>\<open>undefined\<close> and functions are outside this domain.
\<close>

datatype json =
    JNull
  | JBool bool
  | JStr string
  | JArr "json list"
  | JObj "(string \<times> json) list"
  | JThrows thrown

definition hex_digit :: "nat \<Rightarrow> char" where
  "hex_digit n = ''0123456789abcdef'' ! (n mod 16)"

fun quote_char :: "char \<Rightarrow> string" where
  "quote_char c =
     (if c = CHR 0x08 then [CHR 0x5C, CHR ''b'']
      else if c = CHR 0x09 then [CHR 0x5C, CHR ''t'']
      else if c = CHR 0x0A then [CHR 0x5C, CHR ''n'']
      else if c = CHR 0x0C then [CHR 0x5C, CHR ''f'']
      else if c = CHR 0x0D then [CHR 0x5C, CHR ''r'']
      else if c = CHR 0x22 then [CHR 0x5C, CHR 0x22]
      else if c = CHR 0x5C then [CHR 0x5C, CHR 0x5C]
      else if (of_char c :: nat) < 0x20
        then [CHR 0x5C, CHR ''u'', CHR ''0'', CHR ''0'',
              hex_digit (of_char c div 16), hex_digit (of_char c)]
      else [c])"

definition QuoteJSONString :: "string \<Rightarrow> string" where
  "QuoteJSONString s = [CHR 0x22] @ concat (map quote_char s) @ [CHR 0x22]"

fun join :: "string \<Rightarrow> string list \<Rightarrow> string" where
  "join sep [] = []"
| "join sep [x] = x"
| "join sep (x # y # ys) = x @ sep @ join sep (y # ys)"

text \<open>
  The serialisation goes through the value in order, depth first, and stops at the first
  value that throws.
\<close>

fun first_thrown :: "thrown option list \<Rightarrow> thrown option" where
  "first_thrown [] = None"
| "first_thrown (None # xs) = first_thrown xs"
| "first_thrown (Some e # xs) = Some e"

fun JSON_throws :: "json \<Rightarrow> thrown option" where
  "JSON_throws JNull = None"
| "JSON_throws (JBool b) = None"
| "JSON_throws (JStr s) = None"
| "JSON_throws (JArr xs) = first_thrown (map JSON_throws xs)"
| "JSON_throws (JObj kvs) = first_thrown (map (\<lambda>(k, v). JSON_throws v) kvs)"
| "JSON_throws (JThrows e) = Some e"

text \<open>The text of a value in which nothing throws.\<close>

fun JSON_text :: "json \<Rightarrow> string" where
  "JSON_text JNull = ''null''"
| "JSON_text (JBool b) = (if b then ''true'' else ''false'')"
| "JSON_text (JStr s) = QuoteJSONString s"
| "JSON_text (JArr xs) = ''['' @ join '','' (map JSON_text xs) @ '']''"
| "JSON_text (JObj kvs) =
     ''{'' @ join '','' (map (\<lambda>(k, v). QuoteJSONString k @ '':'' @ JSON_text v) kvs) @ ''}''"
| "JSON_text (JThrows e) = []"

definition JSON_stringify :: "json \<Rightarrow> thrown + string" where
  "JSON_stringify v = (case JSON_throws v of Some e \<Rightarrow> Inl e | None \<Rightarrow> Inr (JSON_text v))"

text \<open>A number in a template literal: its decimal digits.\<close>

fun dec :: "nat \<Rightarrow> string" where
  "dec n = (if n < 10 then [hex_digit n] else dec (n div 10) @ [hex_digit (n mod 10)])"

text \<open>
  The byte length of a string on the wire: its UTF-8 encoding takes one byte for a code
  unit below 0x80 and two bytes for one in 0x80..0xFF.
\<close>

definition utf8_length :: "string \<Rightarrow> nat" where
  "utf8_length s = sum_list (map (\<lambda>c. if (of_char c :: nat) < 0x80 then 1 else 2) s)"

section \<open>Data model\<close>

record CloudFormationCustomResourceEvent =
  RequestType :: string
  ResponseURL :: string
  StackId :: string
  RequestId :: string
  LogicalResourceId :: string
  PhysicalResourceId :: "string option"

type_synonym event = CloudFormationCustomResourceEvent

record Context =
  logStreamName :: string
  getRemainingTimeInMillis :: int

text \<open>
  Modelled from the spec: \<^verbatim>\<open>./log-factory\<close> (the default log factory and the Logger type)
  is not among the sources. A logger is an opaque capability with the methods debug, info
  and error, which return normally; the default factory builds one from the event. Calls of
  its methods are recorded as effects.
\<close>

datatype logger = DefaultLogger | UserLogger nat

definition defaultLogFactory :: "event \<Rightarrow> logger" where
  "defaultLogFactory event = DefaultLogger"

type_synonym LogFactory = "event \<Rightarrow> Context \<Rightarrow> thrown + logger"

record ResourceHandlerReturn =
  physicalResourceId :: string
  responseData :: "(string \<times> json) list option"

type_synonym 'r handler = "event \<Rightarrow> Context \<Rightarrow> logger \<Rightarrow> 'r eventual"

record ResourceHandler =
  onCreate :: "ResourceHandlerReturn handler option"
  onUpdate :: "ResourceHandlerReturn handler option"
  onDelete :: "unit handler option"

type_synonym ResourceHandlerFactory = "logger \<Rightarrow> ResourceHandler eventual"

datatype response_status = SUCCESS | FAILED

fun status_string :: "response_status \<Rightarrow> string" where
  "status_string SUCCESS = ''SUCCESS''"
| "status_string FAILED = ''FAILED''"

record SendResponseDetails =
  d_responseStatus :: response_status
  d_responseData :: "(string \<times> json) list option"
  d_physicalResourceId :: "string option"
  d_reason :: "string option"

text \<open>The two shapes of \<^verbatim>\<open>responseDetails\<close> the helper builds (lines 76 to 79, 184 to 189).\<close>

abbreviation SUCCESS_details :: "string \<Rightarrow> (string \<times> json) list \<Rightarrow> SendResponseDetails" where
  "SUCCESS_details pid rd \<equiv>
     \<lparr>d_responseStatus = SUCCESS, d_responseData = Some rd,
      d_physicalResourceId = Some pid, d_reason = Some ''OK''\<rparr>"

abbreviation FAILED_details :: "string \<Rightarrow> SendResponseDetails" where
  "FAILED_details r \<equiv>
     \<lparr>d_responseStatus = FAILED, d_responseData = None,
      d_physicalResourceId = None, d_reason = Some r\<rparr>"

subsection \<open>Effects and the environment\<close>

datatype header_value = HStr string | HNum nat

record put_request =
  url :: string
  data :: string
  headers :: "(string \<times> header_value) list"

datatype log_level = Debug | Info | Error

datatype log_arg = Text string | TheEvent event | TheError thrown

datatype handler_name = OnCreate | OnUpdate | OnDelete

datatype effect =
    Log logger log_level log_arg
  | Invoke handler_name
  | Put put_request

text \<open>
  The environment: what \<^verbatim>\<open>axios.put\<close> answers to a request issued at a given time (the
  response's status code, a rejection, or nothing ever), and how long the runtime's
  \<^verbatim>\<open>setTimeout\<close> waits when asked for a given delay.
\<close>

record env =
  axios_put :: "time \<Rightarrow> put_request \<Rightarrow> nat eventual"
  setTimeout :: "int \<Rightarrow> nat"

text \<open>Node's timer: a delay below 1 or above \<open>2^31 - 1\<close> is set to 1.\<close>

definition node_setTimeout :: "int \<Rightarrow> nat" where
  "node_setTimeout d = (if 1 \<le> d \<and> d \<le> 2147483647 then nat d else 1)"

text \<open>
  An asynchronous call: the promise it returns and the effects it performs, each with the
  time it occurs at. The list is grouped by task, in the order the calls are written
  (dispatcher, guard, \<^verbatim>\<open>catch\<close> clause); it is not sorted by time. Nothing cancels a task:
  the effects of the one that loses the race are in the list, also the ones that occur
  after the entry point's promise has settled.
\<close>

type_synonym 'a task = "'a promise \<times> (time \<times> effect) list"

fun put_of :: "time \<times> effect \<Rightarrow> (time \<times> put_request) list" where
  "put_of (t, Put r) = [(t, r)]"
| "put_of (t, Log lg l a) = []"
| "put_of (t, Invoke h) = []"

definition puts :: "(time \<times> effect) list \<Rightarrow> (time \<times> put_request) list" where
  "puts es = concat (map put_of es)"

fun invocation_of :: "time \<times> effect \<Rightarrow> handler_name list" where
  "invocation_of (t, Invoke h) = [h]"
| "invocation_of (t, Log lg l a) = []"
| "invocation_of (t, Put r) = []"

definition invocations :: "(time \<times> effect) list \<Rightarrow> handler_name list" where
  "invocations es = concat (map invocation_of es)"

section \<open>sendResponse\<close>

text \<open>The object literal handed to \<^verbatim>\<open>JSON.stringify\<close> (lines 104 to 114).\<close>

definition envelope :: "event \<Rightarrow> Context \<Rightarrow> SendResponseDetails \<Rightarrow> (string \<times> json) list" where
  "envelope event context details =
     [(''Status'', JStr (status_string (d_responseStatus details))),
      (''Reason'', JStr (js_or (d_reason details)
          (''See the details in CloudWatch Log Stream: '' @ logStreamName context))),
      (''PhysicalResourceId'', JStr (js_or (d_physicalResourceId details) ''None'')),
      (''StackId'', JStr (StackId event)),
      (''RequestId'', JStr (RequestId event)),
      (''LogicalResourceId'', JStr (LogicalResourceId event)),
      (''Data'', JObj (case d_responseData details of None \<Rightarrow> [] | Some x \<Rightarrow> x))]"

text \<open>The arguments of \<^verbatim>\<open>axios.put\<close> for a body (lines 119 to 125).\<close>

definition put_request :: "event \<Rightarrow> string \<Rightarrow> put_request" where
  "put_request event body =
     \<lparr>url = ResponseURL event, data = body,
      headers = [(''content-type'', HStr []), (''content-length'', HNum (length body))]\<rparr>"

text \<open>
  \<^verbatim>\<open>JSON.stringify\<close> is called first (line 104): when it throws, the promise of
  \<^verbatim>\<open>sendResponse\<close> rejects with what was thrown, and nothing is logged or sent.
\<close>

definition sendResponse ::
  "env \<Rightarrow> time \<Rightarrow> event \<Rightarrow> Context \<Rightarrow> SendResponseDetails \<Rightarrow> logger \<Rightarrow> unit task" where
  "sendResponse env t event context details logger =
     (case JSON_stringify (JObj (envelope event context details)) of
        Inl error \<Rightarrow> (Settles t (Rejected error), [])
      | Inr body \<Rightarrow>
          (let req = put_request event body;
               issued =
                 [(t, Log logger Debug (Text ''Response body:'')),
                  (t, Log logger Debug (Text body)),
                  (t, Log logger Debug (Text (''CFN response URL: '' @ url req))),
                  (t, Put req)]
           in case axios_put env t req of
                Never \<Rightarrow> (Pending, issued)
              | After d (Fulfilled status) \<Rightarrow>
                  (Settles (t + d) (Fulfilled ()),
                   issued @ [(t + d, Log logger Info
                       (Text (''CloudFormation returned status code: '' @ dec status)))])
              | After d (Rejected error) \<Rightarrow>
                  (Settles (t + d) (Rejected error),
                   issued @ [(t + d, Log logger Error
                                (Text ''sendResponse(...) failed executing axios.put:'')),
                             (t + d, Log logger Error (TheError error))])))"

text \<open>
  For the statements below: the body and the request of an envelope that is serialised
  without a throw.
\<close>

definition responseBody :: "event \<Rightarrow> Context \<Rightarrow> SendResponseDetails \<Rightarrow> string" where
  "responseBody event context details = JSON_text (JObj (envelope event context details))"

definition put_request_of :: "event \<Rightarrow> Context \<Rightarrow> SendResponseDetails \<Rightarrow> put_request" where
  "put_request_of event context details =
     put_request event (responseBody event context details)"

section \<open>handleRessource\<close>

text \<open>
  The destructuring \<^verbatim>\<open>({ physicalResourceId, responseData = {} } = await ...)\<close>: an absent
  \<^verbatim>\<open>responseData\<close> becomes the empty object.
\<close>

definition destructure :: "ResourceHandlerReturn \<Rightarrow> string \<times> (string \<times> json) list" where
  "destructure r =
     (physicalResourceId r, case responseData r of None \<Rightarrow> [] | Some x \<Rightarrow> x)"

text \<open>
  The \<^verbatim>\<open>switch\<close> (lines 146 to 181): which handler is called, and the values of
  \<^verbatim>\<open>physicalResourceId\<close> and \<^verbatim>\<open>responseData\<close> after it, starting from \<^verbatim>\<open>'None'\<close> and \<^verbatim>\<open>{}\<close>.
\<close>

definition switch_RequestType ::
  "event \<Rightarrow> Context \<Rightarrow> ResourceHandler \<Rightarrow> logger
     \<Rightarrow> handler_name list \<times> (string \<times> (string \<times> json) list) eventual" where
  "switch_RequestType event context resourceHandler logger =
     (let initial = (''None'', []) in
      if RequestType event = ''Create'' then
        (case onCreate resourceHandler of
           None \<Rightarrow> ([], After 0 (Fulfilled initial))
         | Some h \<Rightarrow> ([OnCreate], map_eventual destructure (h event context logger)))
      else if RequestType event = ''Update'' then
        (case onUpdate resourceHandler of
           None \<Rightarrow> ([], After 0 (Fulfilled initial))
         | Some h \<Rightarrow> ([OnUpdate], map_eventual destructure (h event context logger)))
      else if RequestType event = ''Delete'' then
        (case onDelete resourceHandler of
           None \<Rightarrow> ([], After 0 (Fulfilled initial))
         | Some h \<Rightarrow> ([OnDelete], map_eventual (\<lambda>_. initial) (h event context logger)))
      else ([], After 0 (Rejected (ErrorObj (Some ''Invalid RequestType received'')))))"

definition handleRessource ::
  "env \<Rightarrow> time \<Rightarrow> event \<Rightarrow> Context \<Rightarrow> ResourceHandler \<Rightarrow> logger \<Rightarrow> unit task" where
  "handleRessource env t event context resourceHandler logger =
     (let (called, outcome) = switch_RequestType event context resourceHandler logger;
          begun = (t, Log logger Debug (TheEvent event)) # map (\<lambda>h. (t, Invoke h)) called
      in case outcome of
           Never \<Rightarrow> (Pending, begun)
         | After d (Rejected error) \<Rightarrow> (Settles (t + d) (Rejected error), begun)
         | After d (Fulfilled (physicalResourceId', responseData')) \<Rightarrow>
             (let responseDetails = SUCCESS_details physicalResourceId' responseData';
                  (p, sent) = sendResponse env (t + d) event context responseDetails logger
              in (p, begun @ sent)))"

section \<open>handleTimeout\<close>

definition handleTimeout :: "env \<Rightarrow> time \<Rightarrow> Context \<Rightarrow> logger \<Rightarrow> unit task" where
  "handleTimeout env t context logger =
     (let fires = t + setTimeout env (getRemainingTimeInMillis context - 3000)
      in (Settles fires (Rejected (ErrorObj (Some ''Execution timed out''))),
          [(fires, Log logger Error
              (Text ''Execution is about to time out, sending failure message''))]))"

section \<open>customResourceHelper\<close>

text \<open>
  \<^verbatim>\<open>Promise.race\<close> of two promises: the one that settles first. When both settle at the
  same millisecond the first of the array is taken; that is exact when the first promise
  is already settled at the call, and a choice otherwise.
\<close>

fun Promise_race :: "'a promise \<Rightarrow> 'a promise \<Rightarrow> 'a promise" where
  "Promise_race Pending q = q"
| "Promise_race (Settles tp rp) Pending = Settles tp rp"
| "Promise_race (Settles tp rp) (Settles tq rq) =
     (if tp \<le> tq then Settles tp rp else Settles tq rq)"

text \<open>
  The \<^verbatim>\<open>catch\<close> clause (lines 74 to 81). Reading \<^verbatim>\<open>error.message\<close> of \<^verbatim>\<open>undefined\<close> or
  \<^verbatim>\<open>null\<close> throws a TypeError out of the clause (its message is the engine's).
\<close>

definition catch_clause ::
  "env \<Rightarrow> time \<Rightarrow> event \<Rightarrow> Context \<Rightarrow> logger \<Rightarrow> thrown \<Rightarrow> unit task" where
  "catch_clause env t event context logger error =
     (let logged = [(t, Log logger Error (TheError error))]
      in case error of
           Nullish \<Rightarrow>
             (Settles t (Rejected (ErrorObj
                (Some ''Cannot read properties of undefined (reading 'message')''))), logged)
         | ErrorObj m \<Rightarrow>
             (let responseDetails = FAILED_details (js_or m ''Internal Error'');
                  (p, sent) = sendResponse env t event context responseDetails logger
              in (p, logged @ sent)))"

text \<open>
  Lines 61 to 66: the logger is the default one unless a log factory was given; the
  caller's factory may throw.
\<close>

definition replace_logger :: "LogFactory option \<Rightarrow> event \<Rightarrow> Context \<Rightarrow> thrown + logger" where
  "replace_logger logFactory event context =
     (case logFactory of
        None \<Rightarrow> Inr (defaultLogFactory event)
      | Some f \<Rightarrow> f event context)"

text \<open>
  The \<^verbatim>\<open>try\<close> block (lines 62 to 71), with the logger in scope when it is left:
  \<^verbatim>\<open>logger\<close> keeps the default one when the caller's log factory throws.
\<close>

definition try_block ::
  "ResourceHandlerFactory \<Rightarrow> LogFactory option \<Rightarrow> env \<Rightarrow> event \<Rightarrow> Context
     \<Rightarrow> logger \<times> unit task" where
  "try_block resourceHandlerFactory logFactory env event context =
     (case replace_logger logFactory event context of
        Inl error \<Rightarrow> (defaultLogFactory event, (Settles 0 (Rejected error), []))
      | Inr logger \<Rightarrow>
          (logger,
           case resourceHandlerFactory logger of
             Never \<Rightarrow> (Pending, [])
           | After d (Rejected error) \<Rightarrow> (Settles d (Rejected error), [])
           | After d (Fulfilled resourceHandler) \<Rightarrow>
               (let (p1, e1) = handleRessource env d event context resourceHandler logger;
                    (p2, e2) = handleTimeout env d context logger
                in (Promise_race p1 p2, e1 @ e2))))"

definition customResourceHelper ::
  "ResourceHandlerFactory \<Rightarrow> LogFactory option \<Rightarrow> env \<Rightarrow> event \<Rightarrow> Context \<Rightarrow> unit task" where
  "customResourceHelper resourceHandlerFactory logFactory env event context =
     (let (logger, (p, es)) = try_block resourceHandlerFactory logFactory env event context
      in case p of
           Settles t (Rejected error) \<Rightarrow>
             (let (p', es') = catch_clause env t event context logger error
              in (p', es @ es'))
         | Settles t (Fulfilled u) \<Rightarrow> (p, es)
         | Pending \<Rightarrow> (p, es))"

section \<open>Sample inputs\<close>

text \<open>Concrete events, contexts, handlers and environments, used to run the model.\<close>

definition sample_event :: "string \<Rightarrow> event" where
  "sample_event rt =
     \<lparr>RequestType = rt, ResponseURL = ''https://cfn.example/callback'', StackId = ''stack-1'',
      RequestId = ''req-1'', LogicalResourceId = ''Res'', PhysicalResourceId = Some ''old-id''\<rparr>"

definition sample_context :: "int \<Rightarrow> Context" where
  "sample_context remaining =
     \<lparr>logStreamName = ''stream-1'', getRemainingTimeInMillis = remaining\<rparr>"

text \<open>Every PUT is answered with status 200 after 5 ms; timers are Node's.\<close>

definition network_ok :: env where
  "network_ok = \<lparr>axios_put = (\<lambda>t r. After 5 (Fulfilled 200)), setTimeout = node_setTimeout\<rparr>"

text \<open>A PUT issued before time \<open>n\<close> is refused after 5 ms; later ones are answered.\<close>

definition network_down_until :: "time \<Rightarrow> env" where
  "network_down_until n =
     \<lparr>axios_put = (\<lambda>t r. if t < n then After 5 (Rejected (ErrorObj (Some ''Network Error'')))
                           else After 5 (Fulfilled 200)),
      setTimeout = node_setTimeout\<rparr>"

definition resolving :: "nat \<Rightarrow> 'r \<Rightarrow> 'r handler" where
  "resolving d r event context logger = After d (Fulfilled r)"

definition rejecting :: "nat \<Rightarrow> thrown \<Rightarrow> 'r handler" where
  "rejecting d e event context logger = After d (Rejected e)"

definition hanging :: "'r handler" where
  "hanging event context logger = Never"

definition no_handlers :: ResourceHandler where
  "no_handlers = \<lparr>onCreate = None, onUpdate = None, onDelete = None\<rparr>"

definition only_onCreate :: "ResourceHandlerReturn handler \<Rightarrow> ResourceHandler" where
  "only_onCreate h = \<lparr>onCreate = Some h, onUpdate = None, onDelete = None\<rparr>"

definition only_onDelete :: "unit handler \<Rightarrow> ResourceHandler" where
  "only_onDelete h = \<lparr>onCreate = None, onUpdate = None, onDelete = Some h\<rparr>"

text \<open>A handler-set factory that returns its handlers synchronously.\<close>

definition ready :: "ResourceHandler \<Rightarrow> ResourceHandlerFactory" where
  "ready rh logger = After 0 (Fulfilled rh)"

lemmas samples =
  sample_event_def sample_context_def network_ok_def network_down_until_def resolving_def
  rejecting_def hanging_def no_handlers_def only_onCreate_def only_onDelete_def ready_def
  replace_logger_def defaultLogFactory_def node_setTimeout_def

lemmas model =
  customResourceHelper_def try_block_def catch_clause_def handleRessource_def
  handleTimeout_def switch_RequestType_def sendResponse_def put_request_of_def
  put_request_def JSON_stringify_def responseBody_def envelope_def QuoteJSONString_def
  destructure_def Let_def

section \<open>Auxiliary facts\<close>

subsection \<open>Reading the effects\<close>

lemma puts_Nil [simp]: "puts [] = []"
  by (simp add: puts_def)

lemma puts_Cons_Put [simp]: "puts ((t, Put r) # es) = (t, r) # puts es"
  by (simp add: puts_def)

lemma puts_Cons_Log [simp]: "puts ((t, Log lg l a) # es) = puts es"
  by (simp add: puts_def)

lemma puts_Cons_Invoke [simp]: "puts ((t, Invoke h) # es) = puts es"
  by (simp add: puts_def)

lemma puts_append [simp]: "puts (es @ fs) = puts es @ puts fs"
  by (simp add: puts_def)

lemma puts_map_Invoke [simp]: "puts (map (\<lambda>h. (t, Invoke h)) hs) = []"
  by (induction hs) simp_all

lemma invocations_simps [simp]:
  "invocations [] = []"
  "invocations ((t, Put r) # es) = invocations es"
  "invocations ((t, Log lg l a) # es) = invocations es"
  "invocations ((t, Invoke h) # es) = h # invocations es"
  "invocations (es @ fs) = invocations es @ invocations fs"
  by (simp_all add: invocations_def)

subsection \<open>The sender\<close>

lemma envelope_fields:
  "map_of (envelope event ctx details) ''Status'' =
     Some (JStr (status_string (d_responseStatus details)))"
  "map_of (envelope event ctx details) ''Reason'' =
     Some (JStr (js_or (d_reason details)
        (''See the details in CloudWatch Log Stream: '' @ logStreamName ctx)))"
  "map_of (envelope event ctx details) ''PhysicalResourceId'' =
     Some (JStr (js_or (d_physicalResourceId details) ''None''))"
  "map_of (envelope event ctx details) ''Data'' =
     Some (JObj (case d_responseData details of None \<Rightarrow> [] | Some x \<Rightarrow> x))"
  by (simp_all add: envelope_def)

lemma envelope_keys:
  "map fst (envelope event ctx details) =
     [''Status'', ''Reason'', ''PhysicalResourceId'', ''StackId'', ''RequestId'',
      ''LogicalResourceId'', ''Data'']"
  by (simp add: envelope_def)

lemma put_request_of_simps [simp]:
  "data (put_request_of event ctx details) = responseBody event ctx details"
  "url (put_request_of event ctx details) = ResponseURL event"
  "headers (put_request_of event ctx details) =
     [(''content-type'', HStr []),
      (''content-length'', HNum (length (responseBody event ctx details)))]"
  by (simp_all add: put_request_of_def put_request_def)

text \<open>
  Only \<^verbatim>\<open>Data\<close> can make the serialisation of an envelope throw. The envelopes of the
  \<^verbatim>\<open>catch\<close> clause, and the dispatcher's when no handler supplied data, never do.
\<close>

lemma first_thrown_single [simp]: "first_thrown [x] = x"
  by (cases x) simp_all

lemma JSON_throws_envelope:
  "JSON_throws (JObj (envelope event ctx details)) =
     JSON_throws (JObj (case d_responseData details of None \<Rightarrow> [] | Some x \<Rightarrow> x))"
  by (simp add: envelope_def)

lemma JSON_stringify_envelope:
  "JSON_stringify (JObj (envelope event ctx details)) =
     (case JSON_throws (JObj (envelope event ctx details)) of
        Some e \<Rightarrow> Inl e
      | None \<Rightarrow> Inr (responseBody event ctx details))"
  by (simp only: JSON_stringify_def responseBody_def)

lemma JSON_stringify_Inr_iff:
  "JSON_stringify (JObj (envelope event ctx details)) = Inr body
     \<longleftrightarrow> JSON_throws (JObj (envelope event ctx details)) = None
         \<and> body = responseBody event ctx details"
  by (cases "JSON_throws (JObj (envelope event ctx details))")
     (auto simp add: JSON_stringify_envelope simp del: JSON_throws.simps)

lemma JSON_stringify_FAILED [simp]:
  "JSON_stringify (JObj (envelope event ctx (FAILED_details reason))) =
     Inr (responseBody event ctx (FAILED_details reason))"
proof -
  have "JSON_throws (JObj (envelope event ctx (FAILED_details reason))) = None"
    by (simp add: envelope_def)
  then show ?thesis
    by (simp add: JSON_stringify_Inr_iff del: JSON_throws.simps)
qed

lemma JSON_stringify_SUCCESS_no_data [simp]:
  "JSON_stringify (JObj (envelope event ctx (SUCCESS_details pid []))) =
     Inr (responseBody event ctx (SUCCESS_details pid []))"
proof -
  have "JSON_throws (JObj (envelope event ctx (SUCCESS_details pid []))) = None"
    by (simp add: envelope_def)
  then show ?thesis
    by (simp add: JSON_stringify_Inr_iff del: JSON_throws.simps)
qed

text \<open>A FAILED body is never a SUCCESS body: the status can be read off the body.\<close>

lemma responseBody_status:
  "responseBody event ctx details = responseBody event' ctx' details'
     \<Longrightarrow> d_responseStatus details = d_responseStatus details'"
  by (cases "d_responseStatus details"; cases "d_responseStatus details'")
     (simp_all add: responseBody_def envelope_def QuoteJSONString_def)

lemma puts_sendResponse:
  "puts (snd (sendResponse env t event ctx details lg)) =
     (case JSON_stringify (JObj (envelope event ctx details)) of
        Inl e \<Rightarrow> []
      | Inr body \<Rightarrow> [(t, put_request_of event ctx details)])"
proof (cases "JSON_stringify (JObj (envelope event ctx details))")
  case (Inl e)
  then show ?thesis
    by (simp add: sendResponse_def)
next
  case (Inr body)
  then have "body = responseBody event ctx details"
    by (simp only: JSON_stringify_Inr_iff)
  with Inr show ?thesis
    by (simp add: sendResponse_def Let_def put_request_of_def
        split: eventual.splits settled.splits)
qed

lemma fst_sendResponse:
  "fst (sendResponse env t event ctx details lg) =
     (case JSON_stringify (JObj (envelope event ctx details)) of
        Inl e \<Rightarrow> Settles t (Rejected e)
      | Inr body \<Rightarrow>
          (case axios_put env t (put_request_of event ctx details) of
             Never \<Rightarrow> Pending
           | After d r \<Rightarrow> Settles (t + d) (map_settled (\<lambda>_. ()) r)))"
proof (cases "JSON_stringify (JObj (envelope event ctx details))")
  case (Inl e)
  then show ?thesis
    by (simp add: sendResponse_def)
next
  case (Inr body)
  then have "body = responseBody event ctx details"
    by (simp only: JSON_stringify_Inr_iff)
  with Inr show ?thesis
    by (simp add: sendResponse_def Let_def put_request_of_def
        split: eventual.splits settled.splits)
qed

lemma utf8_length_ascii:
  "\<forall>c \<in> set s. (of_char c :: nat) < 0x80 \<Longrightarrow> utf8_length s = length s"
  by (induction s) (simp_all add: utf8_length_def)

subsection \<open>The dispatcher and the guard\<close>

lemma puts_handleRessource:
  "puts (snd (handleRessource env t event ctx rh lg)) =
     (case snd (switch_RequestType event ctx rh lg) of
        After d (Fulfilled (pid, rd)) \<Rightarrow>
          (case JSON_stringify (JObj (envelope event ctx (SUCCESS_details pid rd))) of
             Inl e \<Rightarrow> []
           | Inr body \<Rightarrow> [(t + d, put_request_of event ctx (SUCCESS_details pid rd))])
      | After d (Rejected e) \<Rightarrow> []
      | Never \<Rightarrow> [])"
  by (simp add: handleRessource_def Let_def case_prod_beta puts_sendResponse
      split: eventual.splits settled.splits)

lemma fst_handleRessource:
  "fst (handleRessource env t event ctx rh lg) =
     (case snd (switch_RequestType event ctx rh lg) of
        Never \<Rightarrow> Pending
      | After d (Rejected e) \<Rightarrow> Settles (t + d) (Rejected e)
      | After d (Fulfilled (pid, rd)) \<Rightarrow>
          fst (sendResponse env (t + d) event ctx (SUCCESS_details pid rd) lg))"
  by (simp add: handleRessource_def Let_def case_prod_beta
      split: eventual.splits settled.splits)

lemma length_puts_handleRessource:
  "length (puts (snd (handleRessource env t event ctx rh lg))) \<le> Suc 0"
  by (simp add: puts_handleRessource split: eventual.splits settled.splits sum.splits)

lemma handleRessource_fulfilled_put:
  "fst (handleRessource env t event ctx rh lg) = Settles t1 (Fulfilled u)
     \<Longrightarrow> length (puts (snd (handleRessource env t event ctx rh lg))) = 1"
  by (auto simp add: fst_handleRessource puts_handleRessource fst_sendResponse
      split: eventual.splits settled.splits sum.splits)

lemma handleRessource_invalid:
  assumes "RequestType event \<noteq> ''Create''" "RequestType event \<noteq> ''Update''"
          "RequestType event \<noteq> ''Delete''"
  shows "handleRessource env t event ctx rh lg =
           (Settles t (Rejected (ErrorObj (Some ''Invalid RequestType received''))),
            [(t, Log lg Debug (TheEvent event))])"
  using assms by (simp add: handleRessource_def switch_RequestType_def)

lemma handleTimeout_eq:
  "handleTimeout env t ctx lg =
     (Settles (t + setTimeout env (getRemainingTimeInMillis ctx - 3000))
        (Rejected (ErrorObj (Some ''Execution timed out''))),
      [(t + setTimeout env (getRemainingTimeInMillis ctx - 3000),
        Log lg Error (Text ''Execution is about to time out, sending failure message''))])"
  by (simp add: handleTimeout_def Let_def)

lemma puts_handleTimeout [simp]: "puts (snd (handleTimeout env t ctx lg)) = []"
  by (simp add: handleTimeout_eq)

lemma Promise_race_fulfilled:
  "Promise_race p (Settles tq (Rejected e)) = Settles t (Fulfilled u)
     \<Longrightarrow> p = Settles t (Fulfilled u)"
  by (cases p) (auto split: if_splits)

subsection \<open>The orchestrator\<close>

lemma puts_catch_clause:
  "puts (snd (catch_clause env t event ctx lg error)) =
     (case error of
        Nullish \<Rightarrow> []
      | ErrorObj m \<Rightarrow>
          [(t, put_request_of event ctx (FAILED_details (js_or m ''Internal Error'')))])"
  by (simp add: catch_clause_def Let_def case_prod_beta puts_sendResponse split: thrown.splits)

lemma fst_catch_clause:
  "fst (catch_clause env t event ctx lg (ErrorObj m)) =
     fst (sendResponse env t event ctx (FAILED_details (js_or m ''Internal Error'')) lg)"
  by (simp add: catch_clause_def Let_def case_prod_beta)

lemma puts_customResourceHelper:
  "puts (snd (customResourceHelper F lf env event ctx)) =
     puts (snd (snd (try_block F lf env event ctx))) @
     (case fst (snd (try_block F lf env event ctx)) of
        Settles t (Rejected (ErrorObj m)) \<Rightarrow>
          [(t, put_request_of event ctx (FAILED_details (js_or m ''Internal Error'')))]
      | Settles t (Rejected Nullish) \<Rightarrow> []
      | Settles t (Fulfilled u) \<Rightarrow> []
      | Pending \<Rightarrow> [])"
  by (simp add: customResourceHelper_def case_prod_beta puts_catch_clause
      split: promise.splits settled.splits thrown.splits)

lemma fst_customResourceHelper_rejected:
  assumes "fst (snd (try_block F lf env event ctx)) = Settles t (Rejected (ErrorObj m))"
  shows "fst (customResourceHelper F lf env event ctx) =
           fst (sendResponse env t event ctx (FAILED_details (js_or m ''Internal Error''))
                  (fst (try_block F lf env event ctx)))"
  using assms by (simp add: customResourceHelper_def case_prod_beta fst_catch_clause)

lemma puts_run_dispatch:
  assumes "replace_logger lf event ctx = Inr lg"
      and "F lg = After d0 (Fulfilled rh)"
  shows "\<exists>rest. puts (snd (customResourceHelper F lf env event ctx)) =
                  puts (snd (handleRessource env d0 event ctx rh lg)) @ rest
              \<and> length rest \<le> 1
              \<and> (\<forall>(t, q) \<in> set rest.
                    \<exists>reason. q = put_request_of event ctx (FAILED_details reason))"
  using assms
  by (auto simp add: puts_customResourceHelper try_block_def case_prod_beta
      split: promise.splits settled.splits thrown.splits)

text \<open>
  A handler's \<^verbatim>\<open>responseData\<close> on which \<^verbatim>\<open>JSON.stringify\<close> throws: the dispatcher sends
  nothing and rejects with what was thrown, when the handler resolves.
\<close>

lemma handleRessource_stringify_throws:
  assumes "snd (switch_RequestType event ctx rh lg) = After d (Fulfilled (pid, rd))"
      and "JSON_stringify (JObj (envelope event ctx (SUCCESS_details pid rd))) = Inl e"
  shows "fst (handleRessource env t event ctx rh lg) = Settles (t + d) (Rejected e)
       \<and> puts (snd (handleRessource env t event ctx rh lg)) = []"
  using assms by (simp add: fst_handleRessource puts_handleRessource fst_sendResponse)

lemma try_block_fulfilled_put:
  assumes "fst (snd (try_block F lf env event ctx)) = Settles t (Fulfilled u)"
  shows "length (puts (snd (snd (try_block F lf env event ctx)))) = 1"
  using assms
  by (auto simp add: try_block_def case_prod_beta handleTimeout_eq
      split: sum.splits eventual.splits settled.splits
      dest!: Promise_race_fulfilled handleRessource_fulfilled_put)

lemma length_puts_try_block:
  "length (puts (snd (snd (try_block F lf env event ctx)))) \<le> 1"
  by (simp add: try_block_def case_prod_beta length_puts_handleRessource
      split: sum.splits eventual.splits settled.splits)

lemma puts_try_block_requests:
  "(t, q) \<in> set (puts (snd (snd (try_block F lf env event ctx))))
     \<Longrightarrow> url q = ResponseURL event \<and> (\<exists>details. q = put_request_of event ctx details)"
  by (auto simp add: try_block_def case_prod_beta puts_handleRessource
      split: sum.splits eventual.splits settled.splits)

text \<open>The \<^verbatim>\<open>try\<close> block stays pending only when the handler-set factory never settles.\<close>

lemma Promise_race_not_Pending [simp]: "Promise_race p (Settles tq rq) \<noteq> Pending"
  by (cases p) simp_all

lemma try_block_Pending_iff:
  "fst (snd (try_block F lf env event ctx)) = Pending
     \<longleftrightarrow> (\<exists>lg. replace_logger lf event ctx = Inr lg \<and> F lg = Never)"
  by (auto simp add: try_block_def case_prod_beta handleTimeout_eq
      split: sum.splits eventual.splits settled.splits)

lemma puts_customResourceHelper_requests:
  "(t, q) \<in> set (puts (snd (customResourceHelper F lf env event ctx)))
     \<Longrightarrow> \<exists>details. q = put_request_of event ctx details"
  by (auto simp add: puts_customResourceHelper dest: puts_try_block_requests
      split: promise.splits settled.splits thrown.splits)

text \<open>Every PUT carries the body \<^verbatim>\<open>JSON.stringify\<close> returned for its envelope.\<close>

lemma puts_handleRessource_serialised:
  assumes "(t', q) \<in> set (puts (snd (handleRessource env t event ctx rh lg)))"
  shows "\<exists>details. q = put_request_of event ctx details
           \<and> JSON_stringify (JObj (envelope event ctx details))
               = Inr (responseBody event ctx details)"
proof (cases "snd (switch_RequestType event ctx rh lg)")
  case Never
  with assms show ?thesis
    by (simp add: puts_handleRessource)
next
  case (After d r)
  show ?thesis
  proof (cases r)
    case (Rejected e)
    with After assms show ?thesis
      by (simp add: puts_handleRessource)
  next
    case (Fulfilled x)
    obtain pid rd where x: "x = (pid, rd)"
      by (cases x)
    show ?thesis
    proof (cases "JSON_stringify (JObj (envelope event ctx (SUCCESS_details pid rd)))")
      case (Inl e)
      with After Fulfilled x assms show ?thesis
        by (simp add: puts_handleRessource)
    next
      case (Inr body)
      then have "body = responseBody event ctx (SUCCESS_details pid rd)"
        by (simp only: JSON_stringify_Inr_iff)
      with Inr After Fulfilled x assms show ?thesis
        by (auto simp add: puts_handleRessource)
    qed
  qed
qed

lemma puts_try_block_serialised:
  "(t, q) \<in> set (puts (snd (snd (try_block F lf env event ctx))))
     \<Longrightarrow> \<exists>details. q = put_request_of event ctx details
           \<and> JSON_stringify (JObj (envelope event ctx details))
               = Inr (responseBody event ctx details)"
  by (auto simp add: try_block_def case_prod_beta
      split: sum.splits eventual.splits settled.splits
      dest: puts_handleRessource_serialised)

lemma puts_customResourceHelper_serialised:
  "(t, q) \<in> set (puts (snd (customResourceHelper F lf env event ctx)))
     \<Longrightarrow> \<exists>details. q = put_request_of event ctx details
           \<and> JSON_stringify (JObj (envelope event ctx details))
               = Inr (responseBody event ctx details)"
  by (auto simp add: puts_customResourceHelper dest: puts_try_block_serialised
      split: promise.splits settled.splits thrown.splits)

section \<open>C1: how many PUTs an invocation performs\<close>

text \<open>
  C1, as amended. Take an invocation whose \<^verbatim>\<open>try\<close> block settles (the handler-set factory
  does not hang) and does not reject with \<^verbatim>\<open>undefined\<close> or \<^verbatim>\<open>null\<close>. It performs at least
  one PUT and at most two; each goes to \<^verbatim>\<open>event.ResponseURL\<close> and carries a response envelope.
  It performs two exactly when the dispatcher issued its PUT (the SUCCESS envelope) and the
  \<^verbatim>\<open>try\<close> block rejected all the same, because that PUT failed or the deadline guard fired
  before it completed: the \<^verbatim>\<open>catch\<close> clause then PUTs a FAILED envelope as well. In every
  other case exactly one PUT is performed.
\<close>

theorem one_or_two_puts:
  assumes "fst (snd (try_block F lf env event ctx)) \<noteq> Pending"
      and "\<forall>t. fst (snd (try_block F lf env event ctx)) \<noteq> Settles t (Rejected Nullish)"
  shows "1 \<le> length (puts (snd (customResourceHelper F lf env event ctx)))
       \<and> length (puts (snd (customResourceHelper F lf env event ctx))) \<le> 2
       \<and> (\<forall>(t, q) \<in> set (puts (snd (customResourceHelper F lf env event ctx))).
             url q = ResponseURL event \<and> (\<exists>details. q = put_request_of event ctx details))
       \<and> (length (puts (snd (customResourceHelper F lf env event ctx))) = 2
            \<longleftrightarrow> puts (snd (snd (try_block F lf env event ctx))) \<noteq> []
                 \<and> (\<exists>t e. fst (snd (try_block F lf env event ctx)) = Settles t (Rejected e)))"
proof (cases "fst (snd (try_block F lf env event ctx))")
  case Pending
  with assms(1) show ?thesis by simp
next
  case (Settles t r)
  show ?thesis
  proof (cases r)
    case (Fulfilled u)
    with Settles have tb: "fst (snd (try_block F lf env event ctx)) = Settles t (Fulfilled u)"
      by simp
    have P: "puts (snd (customResourceHelper F lf env event ctx)) =
             puts (snd (snd (try_block F lf env event ctx)))"
      by (simp add: puts_customResourceHelper tb)
    from try_block_fulfilled_put [OF tb] show ?thesis
      using puts_try_block_requests [of _ _ F lf env event ctx]
      by (auto simp add: P tb)
  next
    case (Rejected e)
    with Settles assms(2) obtain m where
      tb: "fst (snd (try_block F lf env event ctx)) = Settles t (Rejected (ErrorObj m))"
      by (cases e) auto
    have P: "puts (snd (customResourceHelper F lf env event ctx)) =
             puts (snd (snd (try_block F lf env event ctx))) @
             [(t, put_request_of event ctx (FAILED_details (js_or m ''Internal Error'')))]"
      by (simp add: puts_customResourceHelper tb)
    have len: "length (puts (snd (snd (try_block F lf env event ctx)))) = 0
             \<or> length (puts (snd (snd (try_block F lf env event ctx)))) = 1"
      using length_puts_try_block [of F lf env event ctx] by linarith
    from len show ?thesis
      using puts_try_block_requests [of _ _ F lf env event ctx]
      by (auto simp add: P tb)
  qed
qed

text \<open>
  The theorem at work: a Create whose handler resolves after 10 ms, on a network that
  answers. One PUT, issued at 10 ms.
\<close>

theorem one_or_two_puts_witness:
  "fst (snd (try_block
       (ready (only_onCreate
          (resolving 10 \<lparr>physicalResourceId = ''id-1'', responseData = None\<rparr>)))
       None network_ok (sample_event ''Create'') (sample_context 30000)))
     = Settles 15 (Fulfilled ())
   \<and> length (puts (snd (customResourceHelper
       (ready (only_onCreate
          (resolving 10 \<lparr>physicalResourceId = ''id-1'', responseData = None\<rparr>)))
       None network_ok (sample_event ''Create'') (sample_context 30000)))) = 1"
proof -
  let ?blk = "try_block
       (ready (only_onCreate
          (resolving 10 \<lparr>physicalResourceId = ''id-1'', responseData = None\<rparr>)))
       None network_ok (sample_event ''Create'') (sample_context 30000)"
  have tb: "fst (snd ?blk) = Settles 15 (Fulfilled ())"
    by (simp add: samples try_block_def handleRessource_def handleTimeout_def
        switch_RequestType_def sendResponse_def destructure_def Let_def)
  have h1: "fst (snd ?blk) \<noteq> Pending"
    by (simp add: tb)
  have h2: "\<forall>t. fst (snd ?blk) \<noteq> Settles t (Rejected Nullish)"
    by (simp add: tb)
  from one_or_two_puts [OF h1 h2] tb show ?thesis
    by auto
qed

text \<open>
  C1 as stated fails: the handler resolves after 10 ms, the PUT of the SUCCESS envelope is
  refused at 15 ms, and the \<^verbatim>\<open>catch\<close> clause performs a second PUT, of a FAILED envelope.
\<close>

theorem two_puts_counterexample:
  \<open>map (\<lambda>(t, q). (t, url q, data q)) (puts (snd (customResourceHelper
       (ready (only_onCreate
          (resolving 10 \<lparr>physicalResourceId = ''id-1'', responseData = None\<rparr>)))
       None (network_down_until 15) (sample_event ''Create'') (sample_context 30000)))) =
   [(10, ''https://cfn.example/callback'',
     ''{"Status":"SUCCESS","Reason":"OK","PhysicalResourceId":"id-1","StackId":"stack-1","RequestId":"req-1","LogicalResourceId":"Res","Data":{}}''),
    (15, ''https://cfn.example/callback'',
     ''{"Status":"FAILED","Reason":"Network Error","PhysicalResourceId":"None","StackId":"stack-1","RequestId":"req-1","LogicalResourceId":"Res","Data":{}}'')]\<close>
  by (simp add: samples model)

section \<open>C2: the handler's result in the SUCCESS envelope\<close>

text \<open>
  C2, as amended. For a Create or Update event whose handler is registered and resolves with
  \<open>r\<close>, and whose envelope \<^verbatim>\<open>JSON.stringify\<close> serialises without throwing, exactly one SUCCESS
  envelope is sent (by the dispatcher, when the handler resolves; any other PUT of the
  invocation carries a FAILED envelope). Its Reason is \<^verbatim>\<open>OK\<close>, its Data is the
  \<^verbatim>\<open>responseData\<close> the handler returned (the empty mapping when omitted), and its
  PhysicalResourceId is the \<^verbatim>\<open>physicalResourceId\<close> the handler returned, or \<^verbatim>\<open>None\<close> when the
  handler returned the empty string.
\<close>

theorem handler_result_in_SUCCESS_envelope:
  assumes "RequestType event = ''Create'' \<and> onCreate rh = Some h
         \<or> RequestType event = ''Update'' \<and> onUpdate rh = Some h"
      and "h event ctx lg = After d (Fulfilled r)"
      and "replace_logger lf event ctx = Inr lg"
      and "F lg = After d0 (Fulfilled rh)"
      and "sent = SUCCESS_details (physicalResourceId r)
                    (case responseData r of None \<Rightarrow> [] | Some x \<Rightarrow> x)"
      and "JSON_stringify (JObj (envelope event ctx sent)) = Inr (responseBody event ctx sent)"
  shows "(\<exists>rest. puts (snd (customResourceHelper F lf env event ctx)) =
                    (d0 + d, put_request_of event ctx sent) # rest
                \<and> (\<forall>(t, q) \<in> set rest.
                      (\<exists>reason. q = put_request_of event ctx (FAILED_details reason))
                      \<and> data q \<noteq> data (put_request_of event ctx sent)))
       \<and> map_of (envelope event ctx sent) ''Status'' = Some (JStr ''SUCCESS'')
       \<and> map_of (envelope event ctx sent) ''Reason'' = Some (JStr ''OK'')
       \<and> map_of (envelope event ctx sent) ''PhysicalResourceId'' =
           Some (JStr (if physicalResourceId r = [] then ''None'' else physicalResourceId r))
       \<and> map_of (envelope event ctx sent) ''Data'' =
           Some (JObj (case responseData r of None \<Rightarrow> [] | Some x \<Rightarrow> x))"
proof -
  have sw: "snd (switch_RequestType event ctx rh lg) = After d (Fulfilled (destructure r))"
    using assms(1,2) by (auto simp add: switch_RequestType_def)
  have hr: "puts (snd (handleRessource env d0 event ctx rh lg)) =
          [(d0 + d, put_request_of event ctx sent)]"
    using assms(6) by (simp add: puts_handleRessource sw destructure_def assms(5))
  have ne: "data (put_request_of event ctx (FAILED_details reason))
              \<noteq> data (put_request_of event ctx sent)" for reason
    using responseBody_status [of _ _ "FAILED_details reason" _ _ sent]
    by (auto simp add: assms(5))
  from puts_run_dispatch [where F = F, OF assms(3,4), of env] hr
  obtain rest where rest: "puts (snd (customResourceHelper F lf env event ctx)) =
                    (d0 + d, put_request_of event ctx sent) # rest"
      "\<forall>(t, q) \<in> set rest. \<exists>reason. q = put_request_of event ctx (FAILED_details reason)"
    by auto
  from rest(2) ne have "\<forall>(t, q) \<in> set rest.
                      (\<exists>reason. q = put_request_of event ctx (FAILED_details reason))
                      \<and> data q \<noteq> data (put_request_of event ctx sent)"
    by fastforce
  with rest(1) show ?thesis
    by (auto simp add: envelope_fields assms(5))
qed

text \<open>The theorem at work: an Update whose handler returns an id and one attribute.\<close>

theorem handler_result_in_SUCCESS_envelope_witness:
  \<open>map_of (envelope (sample_event ''Update'') (sample_context 30000)
       (SUCCESS_details ''id-2'' [(''Arn'', JStr ''arn:x'')])) ''PhysicalResourceId''
     = Some (JStr ''id-2'')
   \<and> map (\<lambda>(t, q). (t, data q)) (puts (snd (customResourceHelper
        (ready (no_handlers\<lparr>onUpdate := Some (resolving 10
           \<lparr>physicalResourceId = ''id-2'', responseData = Some [(''Arn'', JStr ''arn:x'')]\<rparr>)\<rparr>))
        None network_ok (sample_event ''Update'') (sample_context 30000)))) =
     [(10, ''{"Status":"SUCCESS","Reason":"OK","PhysicalResourceId":"id-2","StackId":"stack-1","RequestId":"req-1","LogicalResourceId":"Res","Data":{"Arn":"arn:x"}}'')]\<close>
proof -
  let ?r = "\<lparr>physicalResourceId = ''id-2'', responseData = Some [(''Arn'', JStr ''arn:x'')]\<rparr>"
  let ?rh = "no_handlers\<lparr>onUpdate := Some (resolving 10 ?r)\<rparr>"
  have rt: "RequestType (sample_event ''Update'') = ''Create'' \<and> onCreate ?rh = Some (resolving 10 ?r)
          \<or> RequestType (sample_event ''Update'') = ''Update'' \<and> onUpdate ?rh = Some (resolving 10 ?r)"
    by (simp add: samples)
  have h: "resolving 10 ?r (sample_event ''Update'') (sample_context 30000) DefaultLogger
             = After 10 (Fulfilled ?r)"
    by (simp add: samples)
  have lg: "replace_logger None (sample_event ''Update'') (sample_context 30000)
              = Inr DefaultLogger"
    by (simp add: samples)
  have F: "ready ?rh DefaultLogger = After 0 (Fulfilled ?rh)"
    by (simp add: samples)
  have sent: "SUCCESS_details ''id-2'' [(''Arn'', JStr ''arn:x'')] =
                SUCCESS_details (physicalResourceId ?r)
                  (case responseData ?r of None \<Rightarrow> [] | Some x \<Rightarrow> x)"
    by simp
  have ser: "JSON_stringify (JObj (envelope (sample_event ''Update'') (sample_context 30000)
                 (SUCCESS_details ''id-2'' [(''Arn'', JStr ''arn:x'')]))) =
               Inr (responseBody (sample_event ''Update'') (sample_context 30000)
                 (SUCCESS_details ''id-2'' [(''Arn'', JStr ''arn:x'')]))"
    by (simp add: JSON_stringify_def responseBody_def envelope_def)
  let ?run = "customResourceHelper (ready ?rh) None network_ok
                (sample_event ''Update'') (sample_context 30000)"
  from handler_result_in_SUCCESS_envelope [where F = "ready ?rh" and env = network_ok,
      OF rt h lg F sent ser, THEN conjunct1]
  obtain rest where
    "puts (snd ?run) =
       (0 + 10, put_request_of (sample_event ''Update'') (sample_context 30000)
                  (SUCCESS_details ''id-2'' [(''Arn'', JStr ''arn:x'')])) # rest"
    by blast
  moreover have "length (puts (snd ?run)) = 1"
    by (simp add: samples model)
  ultimately have eq: "puts (snd ?run) =
       [(10, put_request_of (sample_event ''Update'') (sample_context 30000)
               (SUCCESS_details ''id-2'' [(''Arn'', JStr ''arn:x'')]))]"
    by simp
  have body: \<open>responseBody (sample_event ''Update'') (sample_context 30000)
               (SUCCESS_details ''id-2'' [(''Arn'', JStr ''arn:x'')]) =
     ''{"Status":"SUCCESS","Reason":"OK","PhysicalResourceId":"id-2","StackId":"stack-1","RequestId":"req-1","LogicalResourceId":"Res","Data":{"Arn":"arn:x"}}''\<close>
    by (simp add: samples responseBody_def envelope_def QuoteJSONString_def)
  show ?thesis
    by (simp add: eq body envelope_fields)
qed

text \<open>
  C2 as stated fails: a Create handler resolves with \<^verbatim>\<open>physicalResourceId\<close> the empty
  string, and the SUCCESS envelope carries \<^verbatim>\<open>None\<close> instead.
\<close>

theorem empty_physicalResourceId_counterexample:
  \<open>physicalResourceId \<lparr>physicalResourceId = [], responseData = None\<rparr> = []
   \<and> map (\<lambda>(t, q). (t, data q)) (puts (snd (customResourceHelper
        (ready (only_onCreate (resolving 10 \<lparr>physicalResourceId = [], responseData = None\<rparr>)))
        None network_ok (sample_event ''Create'') (sample_context 30000)))) =
     [(10, ''{"Status":"SUCCESS","Reason":"OK","PhysicalResourceId":"None","StackId":"stack-1","RequestId":"req-1","LogicalResourceId":"Res","Data":{}}'')]\<close>
  by (simp add: samples model)

text \<open>
  The path the amended claim leaves out: \<^verbatim>\<open>onCreate\<close> resolves with a \<^verbatim>\<open>responseData\<close> that
  holds a BigInt, \<^verbatim>\<open>JSON.stringify\<close> throws in \<^verbatim>\<open>sendResponse\<close> before anything is sent, the
  dispatcher rejects, and the only PUT is the one of the \<^verbatim>\<open>catch\<close> clause.
\<close>

lemma unserialisable_responseData_example:
  \<open>map (\<lambda>(t, q). (t, data q)) (puts (snd (customResourceHelper
       (ready (only_onCreate (resolving 10
          \<lparr>physicalResourceId = ''id-1'',
           responseData = Some [(''Count'',
             JThrows (ErrorObj (Some ''Do not know how to serialize a BigInt'')))]\<rparr>)))
       None network_ok (sample_event ''Create'') (sample_context 30000)))) =
   [(10, ''{"Status":"FAILED","Reason":"Do not know how to serialize a BigInt","PhysicalResourceId":"None","StackId":"stack-1","RequestId":"req-1","LogicalResourceId":"Res","Data":{}}'')]\<close>
  by (simp add: samples model)

section \<open>C3: Create or Update without a handler\<close>

text \<open>
  C3. For a Create or Update event whose handler was not registered, the switch calls
  nothing and leaves \<^verbatim>\<open>physicalResourceId = 'None'\<close> and \<^verbatim>\<open>responseData = {}\<close>; the dispatcher
  sends, as soon as it is called, a SUCCESS envelope with PhysicalResourceId \<^verbatim>\<open>None\<close> and Data
  the empty mapping. (Any further PUT of the invocation carries a FAILED envelope.)
\<close>

theorem missing_handler_is_SUCCESS_None:
  assumes "RequestType event = ''Create'' \<and> onCreate rh = None
         \<or> RequestType event = ''Update'' \<and> onUpdate rh = None"
      and "replace_logger lf event ctx = Inr lg"
      and "F lg = After d0 (Fulfilled rh)"
  shows "switch_RequestType event ctx rh lg = ([], After 0 (Fulfilled (''None'', [])))
       \<and> (\<exists>rest. puts (snd (customResourceHelper F lf env event ctx)) =
                    (d0, put_request_of event ctx (SUCCESS_details ''None'' [])) # rest
                \<and> (\<forall>(t, q) \<in> set rest.
                      \<exists>reason. q = put_request_of event ctx (FAILED_details reason)))
       \<and> map_of (envelope event ctx (SUCCESS_details ''None'' [])) ''Status'' =
           Some (JStr ''SUCCESS'')
       \<and> map_of (envelope event ctx (SUCCESS_details ''None'' [])) ''PhysicalResourceId'' =
           Some (JStr ''None'')
       \<and> map_of (envelope event ctx (SUCCESS_details ''None'' [])) ''Data'' =
           Some (JObj [])"
proof -
  have sw: "switch_RequestType event ctx rh lg = ([], After 0 (Fulfilled (''None'', [])))"
    using assms(1) by (auto simp add: switch_RequestType_def)
  have "puts (snd (handleRessource env d0 event ctx rh lg)) =
          [(d0, put_request_of event ctx (SUCCESS_details ''None'' []))]"
    by (simp add: puts_handleRessource sw)
  with puts_run_dispatch [where F = F, OF assms(2,3), of env] sw show ?thesis
    by (auto simp add: envelope_fields)
qed

text \<open>The theorem at work: a Create with no handlers at all.\<close>

theorem missing_handler_is_SUCCESS_None_witness:
  \<open>onCreate no_handlers = None
   \<and> map (\<lambda>(t, q). (t, data q)) (puts (snd (customResourceHelper (ready no_handlers) None
        network_ok (sample_event ''Create'') (sample_context 30000)))) =
     [(0, ''{"Status":"SUCCESS","Reason":"OK","PhysicalResourceId":"None","StackId":"stack-1","RequestId":"req-1","LogicalResourceId":"Res","Data":{}}'')]\<close>
proof -
  have rt: "RequestType (sample_event ''Create'') = ''Create'' \<and> onCreate no_handlers = None
          \<or> RequestType (sample_event ''Create'') = ''Update'' \<and> onUpdate no_handlers = None"
    by (simp add: samples)
  have lg: "replace_logger None (sample_event ''Create'') (sample_context 30000)
              = Inr DefaultLogger"
    by (simp add: samples)
  have F: "ready no_handlers DefaultLogger = After 0 (Fulfilled no_handlers)"
    by (simp add: samples)
  let ?run = "customResourceHelper (ready no_handlers) None network_ok
                (sample_event ''Create'') (sample_context 30000)"
  from missing_handler_is_SUCCESS_None [where F = "ready no_handlers" and env = network_ok,
      OF rt lg F, THEN conjunct2, THEN conjunct1]
  obtain rest where
    "puts (snd ?run) =
       (0, put_request_of (sample_event ''Create'') (sample_context 30000)
             (SUCCESS_details ''None'' [])) # rest"
    by blast
  moreover have "length (puts (snd ?run)) = 1"
    by (simp add: samples model)
  ultimately have eq: "puts (snd ?run) =
       [(0, put_request_of (sample_event ''Create'') (sample_context 30000)
              (SUCCESS_details ''None'' []))]"
    by simp
  have body: \<open>responseBody (sample_event ''Create'') (sample_context 30000)
               (SUCCESS_details ''None'' []) =
     ''{"Status":"SUCCESS","Reason":"OK","PhysicalResourceId":"None","StackId":"stack-1","RequestId":"req-1","LogicalResourceId":"Res","Data":{}}''\<close>
    by (simp add: samples responseBody_def envelope_def QuoteJSONString_def)
  have "onCreate no_handlers = None"
    by (simp add: samples)
  then show ?thesis
    by (simp add: eq body)
qed

section \<open>C4: an unknown RequestType\<close>

text \<open>
  C4. When \<^verbatim>\<open>event.RequestType\<close> is none of \<^verbatim>\<open>Create\<close>, \<^verbatim>\<open>Update\<close>, \<^verbatim>\<open>Delete\<close>, dispatch
  (reached once the handler-set factory has returned the handlers) rejects at once with
  \<^verbatim>\<open>Invalid RequestType received\<close>, having only logged the event: no handler is invoked. The
  invocation performs exactly one PUT, of a FAILED envelope whose Reason is that message.
\<close>

theorem invalid_RequestType_one_FAILED_put:
  assumes "RequestType event \<noteq> ''Create''" "RequestType event \<noteq> ''Update''"
          "RequestType event \<noteq> ''Delete''"
      and "replace_logger lf event ctx = Inr lg"
      and "F lg = After d0 (Fulfilled rh)"
  shows "handleRessource env d0 event ctx rh lg =
           (Settles d0 (Rejected (ErrorObj (Some ''Invalid RequestType received''))),
            [(d0, Log lg Debug (TheEvent event))])
       \<and> invocations (snd (customResourceHelper F lf env event ctx)) = []
       \<and> puts (snd (customResourceHelper F lf env event ctx)) =
           [(d0, put_request_of event ctx (FAILED_details ''Invalid RequestType received''))]
       \<and> map_of (envelope event ctx (FAILED_details ''Invalid RequestType received''))
            ''Status'' = Some (JStr ''FAILED'')
       \<and> map_of (envelope event ctx (FAILED_details ''Invalid RequestType received''))
            ''Reason'' = Some (JStr (''Invalid RequestType'' @ '' received''))"
proof -
  have hr: "handleRessource env d0 event ctx rh lg =
           (Settles d0 (Rejected (ErrorObj (Some ''Invalid RequestType received''))),
            [(d0, Log lg Debug (TheEvent event))])"
    using assms(1-3) by (rule handleRessource_invalid)
  have tb: "try_block F lf env event ctx =
      (lg, (Settles d0 (Rejected (ErrorObj (Some ''Invalid RequestType received''))),
            [(d0, Log lg Debug (TheEvent event)),
             (d0 + setTimeout env (getRemainingTimeInMillis ctx - 3000),
              Log lg Error (Text ''Execution is about to time out, sending failure message''))]))"
    using assms(4,5) by (simp add: try_block_def hr handleTimeout_eq)
  have inv: "invocations (snd (customResourceHelper F lf env event ctx)) = []"
    by (simp add: customResourceHelper_def tb catch_clause_def sendResponse_def Let_def
        split: eventual.splits settled.splits)
  have p: "puts (snd (customResourceHelper F lf env event ctx)) =
           [(d0, put_request_of event ctx (FAILED_details ''Invalid RequestType received''))]"
    by (simp add: puts_customResourceHelper tb)
  show ?thesis using hr inv p by (simp add: envelope_fields)
qed

text \<open>The theorem at work: a \<^verbatim>\<open>Replace\<close> event.\<close>

theorem invalid_RequestType_one_FAILED_put_witness:
  \<open>RequestType (sample_event ''Replace'') = ''Replace''
   \<and> map (\<lambda>(t, q). (t, data q)) (puts (snd (customResourceHelper (ready no_handlers) None
        network_ok (sample_event ''Replace'') (sample_context 30000)))) =
     [(0, ''{"Status":"FAILED","Reason":"Invalid RequestType received","PhysicalResourceId":"None","StackId":"stack-1","RequestId":"req-1","LogicalResourceId":"Res","Data":{}}'')]\<close>
proof -
  have rt: "RequestType (sample_event ''Replace'') \<noteq> ''Create''"
           "RequestType (sample_event ''Replace'') \<noteq> ''Update''"
           "RequestType (sample_event ''Replace'') \<noteq> ''Delete''"
    by (simp_all add: samples)
  have lg: "replace_logger None (sample_event ''Replace'') (sample_context 30000)
              = Inr DefaultLogger"
    by (simp add: samples)
  have F: "ready no_handlers DefaultLogger = After 0 (Fulfilled no_handlers)"
    by (simp add: samples)
  from invalid_RequestType_one_FAILED_put [where F = "ready no_handlers"
      and env = network_ok, OF rt lg F]
  show ?thesis
    by (simp add: samples responseBody_def envelope_def QuoteJSONString_def)
qed

section \<open>C5: a handler that rejects\<close>

text \<open>
  C5, as amended. Take an invocation in which the matched handler rejects with an error
  object before the deadline guard fires. Dispatch propagates the rejection unchanged (its
  promise rejects with the same value when the handler does, and it performs no PUT); the
  \<^verbatim>\<open>catch\<close> clause then performs the only PUT of the invocation, a FAILED envelope whose
  Reason is the error's message, or \<^verbatim>\<open>Internal Error\<close> when the message is absent or empty.
\<close>

theorem handler_rejection_becomes_FAILED:
  assumes "RequestType event = ''Create''
             \<and> (\<exists>h. onCreate rh = Some h \<and> h event ctx lg = After d (Rejected (ErrorObj m)))
         \<or> RequestType event = ''Update''
             \<and> (\<exists>h. onUpdate rh = Some h \<and> h event ctx lg = After d (Rejected (ErrorObj m)))
         \<or> RequestType event = ''Delete''
             \<and> (\<exists>h. onDelete rh = Some h \<and> h event ctx lg = After d (Rejected (ErrorObj m)))"
      and "d < setTimeout env (getRemainingTimeInMillis ctx - 3000)"
      and "replace_logger lf event ctx = Inr lg"
      and "F lg = After d0 (Fulfilled rh)"
  shows "fst (handleRessource env d0 event ctx rh lg) = Settles (d0 + d) (Rejected (ErrorObj m))
       \<and> puts (snd (handleRessource env d0 event ctx rh lg)) = []
       \<and> puts (snd (customResourceHelper F lf env event ctx)) =
           [(d0 + d, put_request_of event ctx (FAILED_details (js_or m ''Internal Error'')))]
       \<and> map_of (envelope event ctx (FAILED_details (js_or m ''Internal Error''))) ''Status'' =
           Some (JStr ''FAILED'')
       \<and> map_of (envelope event ctx (FAILED_details (js_or m ''Internal Error''))) ''Reason'' =
           Some (JStr (case m of None \<Rightarrow> ''Internal Error''
                       | Some s \<Rightarrow> if s = [] then ''Internal Error'' else s))"
proof -
  have sw: "snd (switch_RequestType event ctx rh lg) = After d (Rejected (ErrorObj m))"
    using assms(1) by (auto simp add: switch_RequestType_def)
  have p1: "fst (handleRessource env d0 event ctx rh lg) =
              Settles (d0 + d) (Rejected (ErrorObj m))"
    by (simp add: fst_handleRessource sw)
  have e1: "puts (snd (handleRessource env d0 event ctx rh lg)) = []"
    by (simp add: puts_handleRessource sw)
  have tb: "fst (snd (try_block F lf env event ctx)) = Settles (d0 + d) (Rejected (ErrorObj m))"
           "puts (snd (snd (try_block F lf env event ctx))) = []"
    using assms(2,3,4) by (simp_all add: try_block_def case_prod_beta p1 e1 handleTimeout_eq)
  have "puts (snd (customResourceHelper F lf env event ctx)) =
           [(d0 + d, put_request_of event ctx (FAILED_details (js_or m ''Internal Error'')))]"
    by (simp add: puts_customResourceHelper tb)
  with p1 e1 show ?thesis
    by (cases m) (simp_all add: envelope_fields)
qed

text \<open>
  The theorem at work: \<^verbatim>\<open>onCreate\<close> rejects with \<^verbatim>\<open>new Error('boom')\<close> after 10 ms, with 30 s
  left.
\<close>

theorem handler_rejection_becomes_FAILED_witness:
  \<open>(10::nat) < setTimeout network_ok (getRemainingTimeInMillis (sample_context 30000) - 3000)
   \<and> map (\<lambda>(t, q). (t, data q)) (puts (snd (customResourceHelper
        (ready (only_onCreate (rejecting 10 (ErrorObj (Some ''boom''))))) None
        network_ok (sample_event ''Create'') (sample_context 30000)))) =
     [(10, ''{"Status":"FAILED","Reason":"boom","PhysicalResourceId":"None","StackId":"stack-1","RequestId":"req-1","LogicalResourceId":"Res","Data":{}}'')]\<close>
proof -
  let ?rh = "only_onCreate (rejecting 10 (ErrorObj (Some ''boom'')))"
  let ?run = "customResourceHelper (ready ?rh) None network_ok
                (sample_event ''Create'') (sample_context 30000)"
  have rt: "RequestType (sample_event ''Create'') = ''Create''
             \<and> (\<exists>h. onCreate ?rh = Some h
                   \<and> h (sample_event ''Create'') (sample_context 30000) DefaultLogger
                       = After 10 (Rejected (ErrorObj (Some ''boom''))))
         \<or> RequestType (sample_event ''Create'') = ''Update''
             \<and> (\<exists>h. onUpdate ?rh = Some h
                   \<and> h (sample_event ''Create'') (sample_context 30000) DefaultLogger
                       = After 10 (Rejected (ErrorObj (Some ''boom''))))
         \<or> RequestType (sample_event ''Create'') = ''Delete''
             \<and> (\<exists>h. onDelete ?rh = Some h
                   \<and> h (sample_event ''Create'') (sample_context 30000) DefaultLogger
                       = After 10 (Rejected (ErrorObj (Some ''boom''))))"
    by (simp add: samples)
  have early: "(10::nat) < setTimeout network_ok
                 (getRemainingTimeInMillis (sample_context 30000) - 3000)"
    by (simp add: samples)
  have lg: "replace_logger None (sample_event ''Create'') (sample_context 30000)
              = Inr DefaultLogger"
    by (simp add: samples)
  have F: "ready ?rh DefaultLogger = After 0 (Fulfilled ?rh)"
    by (simp add: samples)
  from handler_rejection_becomes_FAILED [where F = "ready ?rh", OF rt early lg F]
  have eq: "puts (snd ?run) =
       [(10, put_request_of (sample_event ''Create'') (sample_context 30000)
               (FAILED_details ''boom''))]"
    by simp
  have body: \<open>responseBody (sample_event ''Create'') (sample_context 30000)
               (FAILED_details ''boom'') =
     ''{"Status":"FAILED","Reason":"boom","PhysicalResourceId":"None","StackId":"stack-1","RequestId":"req-1","LogicalResourceId":"Res","Data":{}}''\<close>
    by (simp add: samples responseBody_def envelope_def QuoteJSONString_def)
  from early show ?thesis
    by (simp add: eq body)
qed

text \<open>
  C5 as stated fails: with 3005 ms left the guard fires at 5 ms; \<^verbatim>\<open>onCreate\<close> rejects with
  \<^verbatim>\<open>new Error('boom')\<close> at 7 ms, while the PUT of the FAILED envelope is in flight. The only
  envelope sent has Reason \<^verbatim>\<open>Execution timed out\<close>, not \<^verbatim>\<open>boom\<close>.
\<close>

theorem late_rejection_counterexample:
  \<open>rejecting 7 (ErrorObj (Some ''boom'')) (sample_event ''Create'') (sample_context 3005)
       DefaultLogger = (After 7 (Rejected (ErrorObj (Some ''boom''))) :: unit eventual)
   \<and> map (\<lambda>(t, q). (t, data q)) (puts (snd (customResourceHelper
        (ready (only_onCreate (rejecting 7 (ErrorObj (Some ''boom''))))) None
        network_ok (sample_event ''Create'') (sample_context 3005)))) =
     [(5, ''{"Status":"FAILED","Reason":"Execution timed out","PhysicalResourceId":"None","StackId":"stack-1","RequestId":"req-1","LogicalResourceId":"Res","Data":{}}'')]
   \<and> fst (customResourceHelper
        (ready (only_onCreate (rejecting 7 (ErrorObj (Some ''boom''))))) None
        network_ok (sample_event ''Create'') (sample_context 3005)) = Settles 10 (Fulfilled ())\<close>
  by (simp add: samples model)

section \<open>C6: the deadline guard\<close>

text \<open>
  C6. \<^verbatim>\<open>handleTimeout\<close> never resolves successfully: for every context its promise rejects,
  with the message \<^verbatim>\<open>Execution timed out\<close>, when the timer it arms with the delay
  \<^verbatim>\<open>context.getRemainingTimeInMillis() - 3000\<close> fires (under Node's timer, and a delay within
  its range, that is no earlier than this delay, and exactly after it when it is at least
  1 ms). The \<^verbatim>\<open>catch\<close> clause converts that rejection into a PUT of a FAILED envelope with
  Reason \<^verbatim>\<open>Execution timed out\<close>; the orchestrator does so in every invocation where the
  guard settles before the dispatcher.
\<close>

theorem deadline_guard_rejects:
  "fst (handleTimeout env t ctx lg) =
     Settles (t + setTimeout env (getRemainingTimeInMillis ctx - 3000))
       (Rejected (ErrorObj (Some ''Execution timed out'')))
   \<and> (\<forall>t' v. fst (handleTimeout env t ctx lg) \<noteq> Settles t' (Fulfilled v))
   \<and> (setTimeout env = node_setTimeout
        \<longrightarrow> getRemainingTimeInMillis ctx - 3000 \<le> 2147483647
        \<longrightarrow> getRemainingTimeInMillis ctx - 3000
              \<le> int (setTimeout env (getRemainingTimeInMillis ctx - 3000))
            \<and> (1 \<le> getRemainingTimeInMillis ctx - 3000
                 \<longrightarrow> int (setTimeout env (getRemainingTimeInMillis ctx - 3000))
                       = getRemainingTimeInMillis ctx - 3000))
   \<and> puts (snd (catch_clause env t' event ctx lg (ErrorObj (Some ''Execution timed out'')))) =
       [(t', put_request_of event ctx (FAILED_details ''Execution timed out''))]
   \<and> (replace_logger lf event ctx = Inr lg \<longrightarrow> F lg = After t (Fulfilled rh)
        \<longrightarrow> (fst (handleRessource env t event ctx rh lg) = Pending
             \<or> (\<exists>t1 r1. fst (handleRessource env t event ctx rh lg) = Settles t1 r1
                  \<and> t + setTimeout env (getRemainingTimeInMillis ctx - 3000) < t1))
        \<longrightarrow> puts (snd (customResourceHelper F lf env event ctx)) =
              puts (snd (handleRessource env t event ctx rh lg)) @
              [(t + setTimeout env (getRemainingTimeInMillis ctx - 3000),
                put_request_of event ctx (FAILED_details ''Execution timed out''))])
   \<and> map_of (envelope event ctx (FAILED_details ''Execution timed out'')) ''Status'' =
       Some (JStr ''FAILED'')
   \<and> map_of (envelope event ctx (FAILED_details ''Execution timed out'')) ''Reason'' =
       Some (JStr ''Execution timed out'')"
proof -
  have won: "puts (snd (customResourceHelper F lf env event ctx)) =
              puts (snd (handleRessource env t event ctx rh lg)) @
              [(t + setTimeout env (getRemainingTimeInMillis ctx - 3000),
                put_request_of event ctx (FAILED_details ''Execution timed out''))]"
    if a: "replace_logger lf event ctx = Inr lg" "F lg = After t (Fulfilled rh)"
      and b: "fst (handleRessource env t event ctx rh lg) = Pending
             \<or> (\<exists>t1 r1. fst (handleRessource env t event ctx rh lg) = Settles t1 r1
                  \<and> t + setTimeout env (getRemainingTimeInMillis ctx - 3000) < t1)"
  proof -
    have "fst (snd (try_block F lf env event ctx)) =
            Settles (t + setTimeout env (getRemainingTimeInMillis ctx - 3000))
              (Rejected (ErrorObj (Some ''Execution timed out'')))"
      using a b by (auto simp add: try_block_def case_prod_beta handleTimeout_eq)
    moreover have "puts (snd (snd (try_block F lf env event ctx))) =
                     puts (snd (handleRessource env t event ctx rh lg))"
      using a by (simp add: try_block_def case_prod_beta)
    ultimately show ?thesis by (simp add: puts_customResourceHelper)
  qed
  show ?thesis
    using won by (simp add: handleTimeout_eq node_setTimeout_def puts_catch_clause envelope_fields)
qed

text \<open>
  The theorem at work: \<^verbatim>\<open>onCreate\<close> never settles and 30 s are left; the guard fires at
  27 s and the FAILED envelope is sent then.
\<close>

theorem deadline_guard_rejects_witness:
  \<open>fst (handleTimeout network_ok 0 (sample_context 30000) DefaultLogger) =
     Settles 27000 (Rejected (ErrorObj (Some ''Execution timed out'')))
   \<and> fst (handleRessource network_ok 0 (sample_event ''Create'') (sample_context 30000)
        (only_onCreate hanging) DefaultLogger) = Pending
   \<and> map (\<lambda>(t, q). (t, data q)) (puts (snd (customResourceHelper
        (ready (only_onCreate hanging)) None
        network_ok (sample_event ''Create'') (sample_context 30000)))) =
     [(27000, ''{"Status":"FAILED","Reason":"Execution timed out","PhysicalResourceId":"None","StackId":"stack-1","RequestId":"req-1","LogicalResourceId":"Res","Data":{}}'')]\<close>
proof -
  let ?rh = "only_onCreate hanging"
  let ?ev = "sample_event ''Create''"
  let ?ctx = "sample_context 30000"
  note guard = deadline_guard_rejects [where env = network_ok and t = 0 and ctx = ?ctx
      and lg = DefaultLogger and event = ?ev and lf = None and F = "ready ?rh" and rh = ?rh]
  have node: "setTimeout network_ok = node_setTimeout"
    by (simp add: samples)
  have range: "getRemainingTimeInMillis ?ctx - 3000 \<le> 2147483647"
              "1 \<le> getRemainingTimeInMillis ?ctx - 3000"
    by (simp_all add: samples)
  from guard node range
  have delay: "int (setTimeout network_ok (getRemainingTimeInMillis ?ctx - 3000)) =
                 getRemainingTimeInMillis ?ctx - 3000"
    by blast
  have fires: "setTimeout network_ok (getRemainingTimeInMillis ?ctx - 3000) = 27000"
    using delay by (simp add: sample_context_def)
  have lg: "replace_logger None ?ev ?ctx = Inr DefaultLogger"
    by (simp add: samples)
  have F: "ready ?rh DefaultLogger = After 0 (Fulfilled ?rh)"
    by (simp add: samples)
  have p1: "fst (handleRessource network_ok 0 ?ev ?ctx ?rh DefaultLogger) = Pending"
    by (simp add: samples handleRessource_def switch_RequestType_def)
  have e1: "puts (snd (handleRessource network_ok 0 ?ev ?ctx ?rh DefaultLogger)) = []"
    by (simp add: samples handleRessource_def switch_RequestType_def)
  from guard lg F p1
  have "puts (snd (customResourceHelper (ready ?rh) None network_ok ?ev ?ctx)) =
          puts (snd (handleRessource network_ok 0 ?ev ?ctx ?rh DefaultLogger)) @
          [(0 + setTimeout network_ok (getRemainingTimeInMillis ?ctx - 3000),
            put_request_of ?ev ?ctx (FAILED_details ''Execution timed out''))]"
    by blast
  then have eq: "puts (snd (customResourceHelper (ready ?rh) None network_ok ?ev ?ctx)) =
          [(27000, put_request_of ?ev ?ctx (FAILED_details ''Execution timed out''))]"
    by (simp add: e1 fires)
  have body: \<open>responseBody ?ev ?ctx (FAILED_details ''Execution timed out'') =
     ''{"Status":"FAILED","Reason":"Execution timed out","PhysicalResourceId":"None","StackId":"stack-1","RequestId":"req-1","LogicalResourceId":"Res","Data":{}}''\<close>
    by (simp add: samples responseBody_def envelope_def QuoteJSONString_def)
  from guard have "fst (handleTimeout network_ok 0 ?ctx DefaultLogger) =
     Settles (0 + setTimeout network_ok (getRemainingTimeInMillis ?ctx - 3000))
       (Rejected (ErrorObj (Some ''Execution timed out'')))"
    by blast
  then show ?thesis
    by (simp add: fires p1 eq body)
qed

section \<open>C7: a PUT that fails\<close>

text \<open>
  C7, as amended. Every failed PUT (of a body that \<^verbatim>\<open>JSON.stringify\<close> returned) is logged
  and re-raised by \<^verbatim>\<open>sendResponse\<close> to its caller.
  When the PUT that fails is the one of the \<^verbatim>\<open>catch\<close> clause (the FAILED envelope), no
  further PUT follows and the entry point's promise rejects with the delivery error. When it
  is the dispatcher's PUT of the SUCCESS envelope, failing with an error object before the
  deadline guard fires, the rejection reaches the \<^verbatim>\<open>catch\<close> clause, which converts it into one
  further PUT: a FAILED envelope whose Reason is the delivery error's message (or
  \<^verbatim>\<open>Internal Error\<close>).
\<close>

theorem failed_put_is_logged_and_reraised:
  "(JSON_stringify (JObj (envelope event ctx details)) = Inr (responseBody event ctx details) \<longrightarrow>
    axios_put env t (put_request_of event ctx details) = After dl (Rejected e) \<longrightarrow>
      sendResponse env t event ctx details lg =
        (Settles (t + dl) (Rejected e),
         [(t, Log lg Debug (Text ''Response body:'')),
          (t, Log lg Debug (Text (responseBody event ctx details))),
          (t, Log lg Debug (Text (''CFN response URL: '' @ ResponseURL event))),
          (t, Put (put_request_of event ctx details)),
          (t + dl, Log lg Error (Text ''sendResponse(...) failed executing axios.put:'')),
          (t + dl, Log lg Error (TheError e))]))
   \<and> (fst (snd (try_block F lf env event ctx)) = Settles t (Rejected (ErrorObj m)) \<longrightarrow>
      axios_put env t (put_request_of event ctx (FAILED_details (js_or m ''Internal Error'')))
        = After dl (Rejected e) \<longrightarrow>
      fst (customResourceHelper F lf env event ctx) = Settles (t + dl) (Rejected e)
      \<and> puts (snd (customResourceHelper F lf env event ctx)) =
          puts (snd (snd (try_block F lf env event ctx))) @
          [(t, put_request_of event ctx (FAILED_details (js_or m ''Internal Error'')))])
   \<and> (replace_logger lf event ctx = Inr lg \<longrightarrow> F lg = After d0 (Fulfilled rh) \<longrightarrow>
      snd (switch_RequestType event ctx rh lg) = After d (Fulfilled (pid, rd)) \<longrightarrow>
      JSON_stringify (JObj (envelope event ctx (SUCCESS_details pid rd)))
        = Inr (responseBody event ctx (SUCCESS_details pid rd)) \<longrightarrow>
      axios_put env (d0 + d) (put_request_of event ctx (SUCCESS_details pid rd))
        = After dl (Rejected (ErrorObj m)) \<longrightarrow>
      d + dl < setTimeout env (getRemainingTimeInMillis ctx - 3000) \<longrightarrow>
      fst (handleRessource env d0 event ctx rh lg) =
        Settles (d0 + d + dl) (Rejected (ErrorObj m))
      \<and> puts (snd (customResourceHelper F lf env event ctx)) =
        [(d0 + d, put_request_of event ctx (SUCCESS_details pid rd)),
         (d0 + d + dl, put_request_of event ctx (FAILED_details (js_or m ''Internal Error'')))])"
proof -
  have a: "sendResponse env t event ctx details lg =
        (Settles (t + dl) (Rejected e),
         [(t, Log lg Debug (Text ''Response body:'')),
          (t, Log lg Debug (Text (responseBody event ctx details))),
          (t, Log lg Debug (Text (''CFN response URL: '' @ ResponseURL event))),
          (t, Put (put_request_of event ctx details)),
          (t + dl, Log lg Error (Text ''sendResponse(...) failed executing axios.put:'')),
          (t + dl, Log lg Error (TheError e))])"
    if "JSON_stringify (JObj (envelope event ctx details)) = Inr (responseBody event ctx details)"
       "axios_put env t (put_request_of event ctx details) = After dl (Rejected e)"
    using that by (simp add: sendResponse_def Let_def put_request_of_def put_request_def)
  have b: "fst (customResourceHelper F lf env event ctx) = Settles (t + dl) (Rejected e)
      \<and> puts (snd (customResourceHelper F lf env event ctx)) =
          puts (snd (snd (try_block F lf env event ctx))) @
          [(t, put_request_of event ctx (FAILED_details (js_or m ''Internal Error'')))]"
    if "fst (snd (try_block F lf env event ctx)) = Settles t (Rejected (ErrorObj m))"
       "axios_put env t (put_request_of event ctx (FAILED_details (js_or m ''Internal Error'')))
        = After dl (Rejected e)"
    using that
    by (simp add: fst_customResourceHelper_rejected fst_sendResponse puts_customResourceHelper)
  have c: "fst (handleRessource env d0 event ctx rh lg) =
        Settles (d0 + d + dl) (Rejected (ErrorObj m))
      \<and> puts (snd (customResourceHelper F lf env event ctx)) =
        [(d0 + d, put_request_of event ctx (SUCCESS_details pid rd)),
         (d0 + d + dl, put_request_of event ctx (FAILED_details (js_or m ''Internal Error'')))]"
    if h: "replace_logger lf event ctx = Inr lg" "F lg = After d0 (Fulfilled rh)"
       "snd (switch_RequestType event ctx rh lg) = After d (Fulfilled (pid, rd))"
       "JSON_stringify (JObj (envelope event ctx (SUCCESS_details pid rd)))
        = Inr (responseBody event ctx (SUCCESS_details pid rd))"
       "axios_put env (d0 + d) (put_request_of event ctx (SUCCESS_details pid rd))
        = After dl (Rejected (ErrorObj m))"
       "d + dl < setTimeout env (getRemainingTimeInMillis ctx - 3000)"
  proof -
    have p1: "fst (handleRessource env d0 event ctx rh lg) =
                Settles (d0 + d + dl) (Rejected (ErrorObj m))"
      using h(3,4,5) by (simp add: fst_handleRessource fst_sendResponse)
    have e1: "puts (snd (handleRessource env d0 event ctx rh lg)) =
                [(d0 + d, put_request_of event ctx (SUCCESS_details pid rd))]"
      using h(3,4) by (simp add: puts_handleRessource)
    have tb: "try_block F lf env event ctx =
               (lg, (Settles (d0 + d + dl) (Rejected (ErrorObj m)),
                     snd (handleRessource env d0 event ctx rh lg)
                       @ snd (handleTimeout env d0 ctx lg)))"
      using h(1,2,6) by (simp add: try_block_def case_prod_beta p1 handleTimeout_eq)
    show ?thesis
      by (simp add: puts_customResourceHelper tb e1 p1)
  qed
  from a b c show ?thesis by blast
qed

text \<open>
  The theorem at work, on a network that refuses the PUTs issued before 5 ms. A \<^verbatim>\<open>Replace\<close>
  event: the PUT of the FAILED envelope is refused and the entry point rejects. A Create
  without handler: the PUT of the SUCCESS envelope is refused and a FAILED envelope follows.
\<close>

theorem failed_put_is_logged_and_reraised_witness:
  \<open>fst (customResourceHelper (ready no_handlers) None (network_down_until 5)
        (sample_event ''Replace'') (sample_context 30000)) =
     Settles 5 (Rejected (ErrorObj (Some ''Network Error'')))
   \<and> length (puts (snd (customResourceHelper (ready no_handlers) None (network_down_until 5)
        (sample_event ''Replace'') (sample_context 30000)))) = 1
   \<and> puts (snd (customResourceHelper (ready no_handlers) None (network_down_until 5)
        (sample_event ''Create'') (sample_context 30000))) =
     [(0, put_request_of (sample_event ''Create'') (sample_context 30000)
            (SUCCESS_details ''None'' [])),
      (5, put_request_of (sample_event ''Create'') (sample_context 30000)
            (FAILED_details ''Network Error''))]\<close>
proof -
  let ?env = "network_down_until 5"
  let ?ctx = "sample_context 30000"
  let ?F = "ready no_handlers"
  let ?err = "ErrorObj (Some ''Network Error'')"
  have tb: "try_block ?F None ?env (sample_event ''Replace'') ?ctx =
      (DefaultLogger,
       (Settles 0 (Rejected (ErrorObj (Some ''Invalid RequestType received''))),
        [(0, Log DefaultLogger Debug (TheEvent (sample_event ''Replace''))),
         (27000, Log DefaultLogger Error
            (Text ''Execution is about to time out, sending failure message''))]))"
    by (simp add: samples try_block_def handleRessource_def handleTimeout_def
        switch_RequestType_def Let_def)
  have refused: "axios_put ?env 0 (put_request_of (sample_event ''Replace'') ?ctx
                   (FAILED_details (js_or (Some ''Invalid RequestType received'')
                      ''Internal Error''))) = After 5 (Rejected ?err)"
    by (simp add: network_down_until_def)
  from failed_put_is_logged_and_reraised [where F = ?F and lf = None and env = ?env
      and event = "sample_event ''Replace''" and ctx = ?ctx and t = 0
      and m = "Some ''Invalid RequestType received''" and dl = 5 and e = ?err,
      THEN conjunct2, THEN conjunct1] tb refused
  have first: "fst (customResourceHelper ?F None ?env (sample_event ''Replace'') ?ctx) =
                 Settles 5 (Rejected ?err)
             \<and> length (puts (snd (customResourceHelper ?F None ?env
                   (sample_event ''Replace'') ?ctx))) = 1"
    by simp
  have lg: "replace_logger None (sample_event ''Create'') ?ctx = Inr DefaultLogger"
    by (simp add: samples)
  have F: "?F DefaultLogger = After 0 (Fulfilled no_handlers)"
    by (simp add: samples)
  have sw: "snd (switch_RequestType (sample_event ''Create'') ?ctx no_handlers DefaultLogger)
              = After 0 (Fulfilled (''None'', []))"
    by (simp add: samples switch_RequestType_def)
  have refused': "axios_put ?env (0 + 0) (put_request_of (sample_event ''Create'') ?ctx
                    (SUCCESS_details ''None'' [])) = After 5 (Rejected ?err)"
    by (simp add: network_down_until_def)
  have early: "(0::nat) + 5 < setTimeout ?env (getRemainingTimeInMillis ?ctx - 3000)"
    by (simp add: samples)
  from failed_put_is_logged_and_reraised [where F = ?F and lf = None and env = ?env
      and event = "sample_event ''Create''" and ctx = ?ctx and lg = DefaultLogger
      and ?d0.0 = 0 and rh = no_handlers and d = 0 and pid = "''None''" and rd = "[]"
      and dl = 5 and m = "Some ''Network Error''",
      THEN conjunct2, THEN conjunct2] lg F sw JSON_stringify_SUCCESS_no_data refused' early
  have second: "puts (snd (customResourceHelper ?F None ?env (sample_event ''Create'') ?ctx)) =
     [(0, put_request_of (sample_event ''Create'') ?ctx (SUCCESS_details ''None'' [])),
      (5, put_request_of (sample_event ''Create'') ?ctx (FAILED_details ''Network Error''))]"
    by simp
  from first second show ?thesis
    by blast
qed

text \<open>
  C7 as stated fails: an Update without handler on a network that refuses the first PUT.
  The failure of the PUT of the SUCCESS envelope is converted into a further callback, a
  FAILED envelope with the network error as Reason, and the entry point's promise is
  fulfilled once that second PUT is answered.
\<close>

theorem failed_put_converted_counterexample:
  \<open>map (\<lambda>(t, q). (t, data q)) (puts (snd (customResourceHelper (ready no_handlers) None
        (network_down_until 5) (sample_event ''Update'') (sample_context 30000)))) =
     [(0, ''{"Status":"SUCCESS","Reason":"OK","PhysicalResourceId":"None","StackId":"stack-1","RequestId":"req-1","LogicalResourceId":"Res","Data":{}}''),
      (5, ''{"Status":"FAILED","Reason":"Network Error","PhysicalResourceId":"None","StackId":"stack-1","RequestId":"req-1","LogicalResourceId":"Res","Data":{}}'')]
   \<and> fst (customResourceHelper (ready no_handlers) None
        (network_down_until 5) (sample_event ''Update'') (sample_context 30000)) =
     Settles 10 (Fulfilled ())\<close>
  by (simp add: samples model)

section \<open>What sendResponse hands to axios.put\<close>

text \<open>
  Every call of \<^verbatim>\<open>sendResponse\<close> whose body is serialised makes one call of \<^verbatim>\<open>axios.put\<close>.
  Its target is \<^verbatim>\<open>event.ResponseURL\<close>; its body is the serialisation of an object with
  exactly the seven fields, in this spelling and order; the headers it passes are an
  empty content-type and a content-length that is \<^verbatim>\<open>responseBody.length\<close>, the number of
  UTF-16 code units of the body, which is its byte length when the body is ASCII. Which
  headers then go on the wire is up to the transport.
\<close>

lemma sendResponse_wire_format:
  "(JSON_stringify (JObj (envelope event ctx details)) = Inr body \<longrightarrow>
      puts (snd (sendResponse env t event ctx details lg)) =
        [(t, \<lparr>url = ResponseURL event, data = body,
              headers = [(''content-type'', HStr []), (''content-length'', HNum (length body))]\<rparr>)])
   \<and> map fst (envelope event ctx details) =
       [''Status'', ''Reason'', ''PhysicalResourceId'', ''StackId'', ''RequestId'',
        ''LogicalResourceId'', ''Data'']
   \<and> ((\<forall>c \<in> set body. (of_char c :: nat) < 0x80) \<longrightarrow> utf8_length body = length body)"
proof (intro conjI impI)
  assume a: "JSON_stringify (JObj (envelope event ctx details)) = Inr body"
  then have "body = responseBody event ctx details"
    by (simp only: JSON_stringify_Inr_iff)
  with a show "puts (snd (sendResponse env t event ctx details lg)) =
        [(t, \<lparr>url = ResponseURL event, data = body,
              headers = [(''content-type'', HStr []), (''content-length'', HNum (length body))]\<rparr>)]"
    by (simp add: puts_sendResponse put_request_of_def put_request_def)
next
  show "map fst (envelope event ctx details) =
       [''Status'', ''Reason'', ''PhysicalResourceId'', ''StackId'', ''RequestId'',
        ''LogicalResourceId'', ''Data'']"
    by (rule envelope_keys)
next
  assume "\<forall>c \<in> set body. (of_char c :: nat) < 0x80"
  then show "utf8_length body = length body"
    by (rule utf8_length_ascii)
qed

text \<open>
  An example with a character outside ASCII: a Create handler returns an attribute Owner
  whose value is Jos followed by the code unit 0xE9 (e acute). The body has 152 code units,
  which is what the content-length passed to \<^verbatim>\<open>axios.put\<close> says; encoded as UTF-8 it is 153
  bytes long.
\<close>

lemma content_length_argument_example:
  \<open>map (\<lambda>(t, q). (url q, headers q, utf8_length (data q))) (puts (snd (customResourceHelper
       (ready (only_onCreate (resolving 10
          \<lparr>physicalResourceId = ''id-1'',
           responseData = Some [(''Owner'', JStr (''Jos'' @ [CHR 0xE9]))]\<rparr>)))
       None network_ok (sample_event ''Create'') (sample_context 30000)))) =
   [(''https://cfn.example/callback'',
     [(''content-type'', HStr []), (''content-length'', HNum 152)],
     153)]\<close>
  by (simp add: samples model utf8_length_def)

section \<open>C9: Delete\<close>

text \<open>
  C9. For a Delete event that is dispatched successfully (no \<^verbatim>\<open>onDelete\<close> registered, or the
  registered one resolves), the SUCCESS envelope the dispatcher sends has PhysicalResourceId
  \<^verbatim>\<open>None\<close> and Data the empty mapping. The envelope does not depend on the event's own
  PhysicalResourceId. (Any further PUT of the invocation carries a FAILED envelope.)
\<close>

theorem Delete_SUCCESS_is_None:
  assumes "RequestType event = ''Delete''"
      and "onDelete rh = None \<and> d = 0
         \<or> (\<exists>h. onDelete rh = Some h \<and> h event ctx lg = After d (Fulfilled ()))"
      and "replace_logger lf event ctx = Inr lg"
      and "F lg = After d0 (Fulfilled rh)"
  shows "(\<exists>rest. puts (snd (customResourceHelper F lf env event ctx)) =
                    (d0 + d, put_request_of event ctx (SUCCESS_details ''None'' [])) # rest
                \<and> (\<forall>(t, q) \<in> set rest.
                      \<exists>reason. q = put_request_of event ctx (FAILED_details reason)))
       \<and> map_of (envelope event ctx (SUCCESS_details ''None'' [])) ''PhysicalResourceId'' =
           Some (JStr ''None'')
       \<and> map_of (envelope event ctx (SUCCESS_details ''None'' [])) ''Data'' =
           Some (JObj [])
       \<and> envelope (event\<lparr>PhysicalResourceId := x\<rparr>) ctx details = envelope event ctx details"
proof -
  have sw: "snd (switch_RequestType event ctx rh lg) = After d (Fulfilled (''None'', []))"
    using assms(1,2) by (auto simp add: switch_RequestType_def)
  have "puts (snd (handleRessource env d0 event ctx rh lg)) =
          [(d0 + d, put_request_of event ctx (SUCCESS_details ''None'' []))]"
    by (simp add: puts_handleRessource sw)
  with puts_run_dispatch [where F = F, OF assms(3,4), of env] show ?thesis
    by (auto simp add: envelope_fields envelope_def)
qed

text \<open>
  The theorem at work: a Delete of the resource \<^verbatim>\<open>old-id\<close> whose handler resolves after
  10 ms.
\<close>

theorem Delete_SUCCESS_is_None_witness:
  \<open>PhysicalResourceId (sample_event ''Delete'') = Some ''old-id''
   \<and> map (\<lambda>(t, q). (t, data q)) (puts (snd (customResourceHelper
        (ready (only_onDelete (resolving 10 ()))) None
        network_ok (sample_event ''Delete'') (sample_context 30000)))) =
     [(10, ''{"Status":"SUCCESS","Reason":"OK","PhysicalResourceId":"None","StackId":"stack-1","RequestId":"req-1","LogicalResourceId":"Res","Data":{}}'')]\<close>
proof -
  let ?rh = "only_onDelete (resolving 10 ())"
  have rt: "RequestType (sample_event ''Delete'') = ''Delete''"
    by (simp add: samples)
  have h: "onDelete ?rh = None \<and> (10::nat) = 0
         \<or> (\<exists>h. onDelete ?rh = Some h
               \<and> h (sample_event ''Delete'') (sample_context 30000) DefaultLogger
                   = After 10 (Fulfilled ()))"
    by (simp add: samples)
  have lg: "replace_logger None (sample_event ''Delete'') (sample_context 30000)
              = Inr DefaultLogger"
    by (simp add: samples)
  have F: "ready ?rh DefaultLogger = After 0 (Fulfilled ?rh)"
    by (simp add: samples)
  let ?run = "customResourceHelper (ready ?rh) None network_ok
                (sample_event ''Delete'') (sample_context 30000)"
  from Delete_SUCCESS_is_None [where F = "ready ?rh" and env = network_ok,
      OF rt h lg F, THEN conjunct1]
  obtain rest where
    "puts (snd ?run) =
       (0 + 10, put_request_of (sample_event ''Delete'') (sample_context 30000)
                  (SUCCESS_details ''None'' [])) # rest"
    by blast
  moreover have "length (puts (snd ?run)) = 1"
    by (simp add: samples model)
  ultimately have eq: "puts (snd ?run) =
       [(10, put_request_of (sample_event ''Delete'') (sample_context 30000)
               (SUCCESS_details ''None'' []))]"
    by simp
  have body: \<open>responseBody (sample_event ''Delete'') (sample_context 30000)
               (SUCCESS_details ''None'' []) =
     ''{"Status":"SUCCESS","Reason":"OK","PhysicalResourceId":"None","StackId":"stack-1","RequestId":"req-1","LogicalResourceId":"Res","Data":{}}''\<close>
    by (simp add: samples responseBody_def envelope_def QuoteJSONString_def)
  have "PhysicalResourceId (sample_event ''Delete'') = Some ''old-id''"
    by (simp add: samples)
  then show ?thesis
    by (simp add: eq body)
qed

section \<open>C10: the PhysicalResourceId of an envelope is never empty\<close>

text \<open>
  C10. The envelope built by \<^verbatim>\<open>sendResponse\<close> has a non-empty PhysicalResourceId, which is
  \<^verbatim>\<open>None\<close> whenever the \<^verbatim>\<open>physicalResourceId\<close> given to the sender is absent or the empty
  string. Every PUT of an invocation carries such an envelope. In particular, when a Create
  or Update handler returns the empty string, the dispatcher's envelope carries \<^verbatim>\<open>None\<close>
  (it is sent unless \<^verbatim>\<open>JSON.stringify\<close> throws on it, and then the dispatcher sends nothing).
\<close>

theorem PhysicalResourceId_never_empty:
  "(\<exists>p. map_of (envelope event ctx details) ''PhysicalResourceId'' = Some (JStr p) \<and> p \<noteq> []
        \<and> (d_physicalResourceId details = None \<or> d_physicalResourceId details = Some []
             \<longrightarrow> p = ''None''))
   \<and> (\<forall>(t', q) \<in> set (puts (snd (customResourceHelper F lf env event ctx))).
        \<exists>ds p. JSON_stringify (JObj (envelope event ctx ds)) = Inr (data q)
             \<and> map_of (envelope event ctx ds) ''PhysicalResourceId'' = Some (JStr p) \<and> p \<noteq> [])
   \<and> (RequestType event = ''Create'' \<and> onCreate rh = Some h
         \<or> RequestType event = ''Update'' \<and> onUpdate rh = Some h
        \<longrightarrow> h event ctx lg = After d (Fulfilled r) \<longrightarrow> physicalResourceId r = []
        \<longrightarrow> puts (snd (handleRessource env t event ctx rh lg)) =
              (case JSON_stringify
                      (JObj (envelope event ctx (SUCCESS_details [] (snd (destructure r))))) of
                 Inr body \<Rightarrow>
                   [(t + d, put_request_of event ctx (SUCCESS_details [] (snd (destructure r))))]
               | Inl e \<Rightarrow> [])
            \<and> map_of (envelope event ctx (SUCCESS_details [] (snd (destructure r))))
                ''PhysicalResourceId'' = Some (JStr ''None''))"
proof -
  have nonempty: "js_or x ''None'' \<noteq> []" for x
    by (cases x) simp_all
  have a: "\<exists>p. map_of (envelope event ctx ds) ''PhysicalResourceId'' = Some (JStr p) \<and> p \<noteq> []
        \<and> (d_physicalResourceId ds = None \<or> d_physicalResourceId ds = Some []
             \<longrightarrow> p = ''None'')" for ds
    using nonempty by (auto simp add: envelope_fields)
  have b: "\<exists>ds p. JSON_stringify (JObj (envelope event ctx ds)) = Inr (data q)
             \<and> map_of (envelope event ctx ds) ''PhysicalResourceId'' = Some (JStr p) \<and> p \<noteq> []"
    if "(t', q) \<in> set (puts (snd (customResourceHelper F lf env event ctx)))" for t' q
  proof -
    from puts_customResourceHelper_serialised [OF that]
    obtain ds where "q = put_request_of event ctx ds"
      "JSON_stringify (JObj (envelope event ctx ds)) = Inr (responseBody event ctx ds)"
      by blast
    then have "JSON_stringify (JObj (envelope event ctx ds)) = Inr (data q)"
      by simp
    with a [of ds] show ?thesis by blast
  qed
  have c: "puts (snd (handleRessource env t event ctx rh lg)) =
              (case JSON_stringify
                      (JObj (envelope event ctx (SUCCESS_details [] (snd (destructure r))))) of
                 Inr body \<Rightarrow>
                   [(t + d, put_request_of event ctx (SUCCESS_details [] (snd (destructure r))))]
               | Inl e \<Rightarrow> [])
            \<and> map_of (envelope event ctx (SUCCESS_details [] (snd (destructure r))))
                ''PhysicalResourceId'' = Some (JStr ''None'')"
    if "RequestType event = ''Create'' \<and> onCreate rh = Some h
         \<or> RequestType event = ''Update'' \<and> onUpdate rh = Some h"
       "h event ctx lg = After d (Fulfilled r)" "physicalResourceId r = []"
  proof -
    have "snd (switch_RequestType event ctx rh lg) = After d (Fulfilled (destructure r))"
      using that(1,2) by (auto simp add: switch_RequestType_def)
    then show ?thesis
      using that(3)
      by (simp add: puts_handleRessource destructure_def envelope_fields
          split: sum.splits option.splits)
  qed
  from a [of details] b c show ?thesis
    by blast
qed

text \<open>The theorem at work: \<^verbatim>\<open>onCreate\<close> resolves with the empty string as id.\<close>

theorem PhysicalResourceId_never_empty_witness:
  \<open>physicalResourceId \<lparr>physicalResourceId = [], responseData = None\<rparr> = []
   \<and> map (\<lambda>(t, q). (t, data q)) (puts (snd (handleRessource network_ok 0
        (sample_event ''Create'') (sample_context 30000)
        (only_onCreate (resolving 10 \<lparr>physicalResourceId = [], responseData = None\<rparr>))
        DefaultLogger))) =
     [(10, ''{"Status":"SUCCESS","Reason":"OK","PhysicalResourceId":"None","StackId":"stack-1","RequestId":"req-1","LogicalResourceId":"Res","Data":{}}'')]\<close>
proof -
  let ?r = "\<lparr>physicalResourceId = [], responseData = None\<rparr>"
  let ?rh = "only_onCreate (resolving 10 ?r)"
  let ?ev = "sample_event ''Create''"
  let ?ctx = "sample_context 30000"
  have rt: "RequestType ?ev = ''Create'' \<and> onCreate ?rh = Some (resolving 10 ?r)
          \<or> RequestType ?ev = ''Update'' \<and> onUpdate ?rh = Some (resolving 10 ?r)"
    by (simp add: samples)
  have h: "resolving 10 ?r ?ev ?ctx DefaultLogger = After 10 (Fulfilled ?r)"
    by (simp add: samples)
  have empty: "physicalResourceId ?r = []"
    by simp
  from PhysicalResourceId_never_empty [where event = ?ev and rh = ?rh
      and h = "resolving 10 ?r" and ctx = ?ctx and lg = DefaultLogger and d = 10 and r = ?r
      and env = network_ok and t = 0, THEN conjunct2, THEN conjunct2] rt h empty
  have "puts (snd (handleRessource network_ok 0 ?ev ?ctx ?rh DefaultLogger)) =
          (case JSON_stringify
                  (JObj (envelope ?ev ?ctx (SUCCESS_details [] (snd (destructure ?r))))) of
             Inr body \<Rightarrow>
               [(0 + 10, put_request_of ?ev ?ctx (SUCCESS_details [] (snd (destructure ?r))))]
           | Inl e \<Rightarrow> [])"
    by blast
  moreover have "JSON_stringify
                  (JObj (envelope ?ev ?ctx (SUCCESS_details [] (snd (destructure ?r))))) =
                 Inr (responseBody ?ev ?ctx (SUCCESS_details [] (snd (destructure ?r))))"
    by (simp add: destructure_def)
  ultimately have eq: "puts (snd (handleRessource network_ok 0 ?ev ?ctx ?rh DefaultLogger)) =
              [(0 + 10, put_request_of ?ev ?ctx (SUCCESS_details [] (snd (destructure ?r))))]"
    by simp
  have body: \<open>responseBody ?ev ?ctx (SUCCESS_details [] (snd (destructure ?r))) =
     ''{"Status":"SUCCESS","Reason":"OK","PhysicalResourceId":"None","StackId":"stack-1","RequestId":"req-1","LogicalResourceId":"Res","Data":{}}''\<close>
    by (simp add: samples responseBody_def envelope_def QuoteJSONString_def destructure_def)
  show ?thesis
    by (simp add: eq body)
qed

end
